theory Spec2Isabelle
  imports Main "HOL-Library.Sublist"
begin

section \<open>IGoRImport: the translator\<close>

text \<open>
  \<^verbatim>\<open>IGoRImport.CODON_TABLE\<close> (IGoRImport.py, lines 111-128): a dictionary from codon
  strings to one-letter strings, in the order of the source.
\<close>

definition CODON_TABLE_items :: "(string \<times> string) list" where
  "CODON_TABLE_items =
    [(''ATA'', ''I''), (''ATC'', ''I''), (''ATT'', ''I''), (''ATG'', ''M''),
     (''ACA'', ''T''), (''ACC'', ''T''), (''ACG'', ''T''), (''ACT'', ''T''),
     (''AAC'', ''N''), (''AAT'', ''N''), (''AAA'', ''K''), (''AAG'', ''K''),
     (''AGC'', ''S''), (''AGT'', ''S''), (''AGA'', ''R''), (''AGG'', ''R''),
     (''CTA'', ''L''), (''CTC'', ''L''), (''CTG'', ''L''), (''CTT'', ''L''),
     (''CCA'', ''P''), (''CCC'', ''P''), (''CCG'', ''P''), (''CCT'', ''P''),
     (''CAC'', ''H''), (''CAT'', ''H''), (''CAA'', ''Q''), (''CAG'', ''Q''),
     (''CGA'', ''R''), (''CGC'', ''R''), (''CGG'', ''R''), (''CGT'', ''R''),
     (''GTA'', ''V''), (''GTC'', ''V''), (''GTG'', ''V''), (''GTT'', ''V''),
     (''GCA'', ''A''), (''GCC'', ''A''), (''GCG'', ''A''), (''GCT'', ''A''),
     (''GAC'', ''D''), (''GAT'', ''D''), (''GAA'', ''E''), (''GAG'', ''E''),
     (''GGA'', ''G''), (''GGC'', ''G''), (''GGG'', ''G''), (''GGT'', ''G''),
     (''TCA'', ''S''), (''TCC'', ''S''), (''TCG'', ''S''), (''TCT'', ''S''),
     (''TTC'', ''F''), (''TTT'', ''F''), (''TTA'', ''L''), (''TTG'', ''L''),
     (''TAC'', ''Y''), (''TAT'', ''Y''), (''TAA'', ''*''), (''TAG'', ''*''),
     (''TGC'', ''C''), (''TGT'', ''C''), (''TGA'', ''*''), (''TGG'', ''W'')]"

definition CODON_TABLE :: "string \<rightharpoonup> string" where
  "CODON_TABLE = map_of CODON_TABLE_items"

text \<open>
  Python's slice \<^verbatim>\<open>s[i:j]\<close> for indices \<open>0 \<le> i \<le> j\<close>: it never raises and is cut off
  at the end of the string.
\<close>

definition slice :: "string \<Rightarrow> nat \<Rightarrow> nat \<Rightarrow> string" where
  "slice s i j = take (j - i) (drop i s)"

text \<open>
  The body of the loop of \<^verbatim>\<open>translate_sequence\<close> (lines 168-173): the residue appended
  for the codon starting at position \<open>i\<close>.
\<close>

definition translate_codon :: "string \<Rightarrow> string" where
  "translate_codon codon =
     (case CODON_TABLE codon of Some aminoacid \<Rightarrow> aminoacid | None \<Rightarrow> ''_'')"

text \<open>
  The loop \<^verbatim>\<open>for i in range(0, end, 3)\<close> (line 167). \<open>end\<close> is a Python integer and is
  \<open>-1\<close> for inputs shorter than three characters; the loop runs while \<open>i < end\<close>.
  \<open>aa_seq\<close> is the list of one-letter strings built so far.
\<close>

function translate_loop :: "string \<Rightarrow> int \<Rightarrow> int \<Rightarrow> string list \<Rightarrow> string list" where
  "translate_loop nt_seq end i aa_seq =
     (if i < end
      then translate_loop nt_seq end (i + 3)
             (aa_seq @ [translate_codon (slice nt_seq (nat i) (nat (i + 3)))])
      else aa_seq)"
  by pat_completeness auto
termination
  by (relation "measure (\<lambda>(nt_seq, end, i, aa_seq). nat (end - i))") auto

declare translate_loop.simps [simp del]

text \<open>\<^verbatim>\<open>IGoRImport.translate_sequence\<close> (lines 160-174), on a string.\<close>

definition translate_sequence :: "string \<Rightarrow> string" where
  "translate_sequence nt_seq =
     (let end = int (length nt_seq) - (int (length nt_seq) mod 3) - 1
      in concat (translate_loop nt_seq end 0 []))"


subsection \<open>The translator as the specification words it\<close>

text \<open>
  The input cut left to right into non-overlapping triplets, the one or two characters
  left over at the end discarded.
\<close>

fun codons :: "string \<Rightarrow> string list" where
  "codons (a # b # c # rest) = [a, b, c] # codons rest"
| "codons rest = []"

text \<open>
  The standard genetic code in its usual compact form: the 64 triplets over \<open>TCAG\<close> in
  lexicographic order, and the residue of each, \<open>*\<close> for a stop.
\<close>

definition standard_codons :: "string list" where
  "standard_codons =
     concat (map (\<lambda>a. concat (map (\<lambda>b. map (\<lambda>c. [a, b, c]) ''TCAG'') ''TCAG'')) ''TCAG'')"

definition standard_residues :: string where
  "standard_residues = ''FFLLSSSSYY**CC*WLLLLPPPPHHQQRRRRIIIMTTTTNNKKSSRRVVVVAAAADDEEGGGG''"

section \<open>IGoRImport: the row pipeline\<close>

subsection \<open>Tables\<close>

text \<open>
  A cell of a pandas DataFrame: a string, an integer, or the missing value.
  A row maps column labels to cells; a table is its list of column labels and its rows in
  order.
\<close>

datatype cell = Str string | Num int | NaN

type_synonym row = "string \<rightharpoonup> cell"

record dataframe =
  columns :: "string list"
  rows :: "row list"

datatype error = AttributeError string | KeyError string | TypeError | ValueError

text \<open>
  \<^verbatim>\<open>df[c] = v\<close> and \<^verbatim>\<open>df.loc[:, c] = v\<close>: every row gets the cell, and the label is added to
  the columns when it is new.
\<close>

definition setitem :: "string \<Rightarrow> (row \<Rightarrow> cell) \<Rightarrow> dataframe \<Rightarrow> dataframe" where
  "setitem c v df =
     df\<lparr>columns := (if c \<in> set (columns df) then columns df else columns df @ [c]),
        rows := map (\<lambda>r. r(c \<mapsto> v r)) (rows df)\<rparr>"

text \<open>\<^verbatim>\<open>df[mask]\<close> for a boolean Series computed row by row from \<open>df\<close> itself.\<close>

definition getitem_mask :: "(row \<Rightarrow> bool) \<Rightarrow> dataframe \<Rightarrow> dataframe" where
  "getitem_mask p df = df\<lparr>rows := filter p (rows df)\<rparr>"

text \<open>
  \<^verbatim>\<open>df[key]\<close> for a Python list \<open>key\<close> of booleans as long as the table. pandas takes a
  list for a boolean mask only when it is a non-empty list of booleans; the empty list is
  a list of column labels and selects no column, keeping the (then empty) index.
\<close>

definition getitem_bool_list :: "bool list \<Rightarrow> dataframe \<Rightarrow> dataframe" where
  "getitem_bool_list key df =
     (if key = [] then df\<lparr>columns := [], rows := map (\<lambda>r. Map.empty) (rows df)\<rparr>
      else df\<lparr>rows := map snd (filter fst (zip key (rows df)))\<rparr>)"

definition column_values :: "string \<Rightarrow> dataframe \<Rightarrow> cell option list" where
  "column_values c df = map (\<lambda>r. r c) (rows df)"

subsection \<open>Parameters\<close>

text \<open>
  Modelled from the spec: the enum \<^verbatim>\<open>RegionType\<close> is not among the sources. The class
  docstring and the spec single out \<^verbatim>\<open>IMGT_CDR3\<close> (the default); every other member is
  represented by its name.
\<close>

datatype RegionType = IMGT_CDR3 | OtherRegion string

fun region_type_name :: "RegionType \<Rightarrow> string" where
  "region_type_name IMGT_CDR3 = ''IMGT_CDR3''"
| "region_type_name (OtherRegion n) = n"

text \<open>The fields of \<^verbatim>\<open>DatasetImportParams\<close> that \<^verbatim>\<open>preprocess_dataframe\<close> reads.\<close>

record DatasetImportParams =
  import_with_stop_codon :: bool
  import_out_of_frame :: bool
  import_illegal_characters :: bool
  import_empty_nt_sequences :: bool
  region_type :: RegionType

text \<open>The defaults of the class docstring (lines 39-56 and 99-105).\<close>

definition default_params :: DatasetImportParams where
  "default_params =
     \<lparr>import_with_stop_codon = False, import_out_of_frame = False,
      import_illegal_characters = False, import_empty_nt_sequences = True,
      region_type = IMGT_CDR3\<rparr>"

subsection \<open>The collaborators of ImportHelper\<close>

text \<open>Python's \<^verbatim>\<open>s[n:-n]\<close> for \<open>n > 0\<close>.\<close>

definition strip_ends :: "nat \<Rightarrow> string \<Rightarrow> string" where
  "strip_ends n s = take (length s - 2 * n) (drop n s)"

definition strip_cell :: "string \<Rightarrow> nat \<Rightarrow> row \<Rightarrow> row" where
  "strip_cell c n r = (case r c of Some (Str s) \<Rightarrow> r(c \<mapsto> Str (strip_ends n s)) | _ \<Rightarrow> r)"

text \<open>
  Modelled from the spec: \<^verbatim>\<open>ImportHelper.junction_to_cdr3\<close> is not among the sources.
  The spec: it "may shorten sequence_nt/sequence_aa per the configured region type (e.g.,
  stripping first/last residue for an IMGT junction to CDR3 convention)"; the class
  docstring (lines 53-55): with \<^verbatim>\<open>IMGT_CDR3\<close> "the first and last amino acids are removed
  from the CDR3 sequence", any other value imports "the sequences as they are". One
  residue is one character of \<^verbatim>\<open>sequence_aas\<close> and one codon of \<^verbatim>\<open>sequences\<close>.
\<close>

definition junction_to_cdr3 :: "dataframe \<Rightarrow> RegionType \<Rightarrow> dataframe" where
  "junction_to_cdr3 df rt =
     (if rt = IMGT_CDR3
      then df\<lparr>rows := map (\<lambda>r. strip_cell ''sequences'' 3 (strip_cell ''sequence_aas'' 1 r)) (rows df)\<rparr>
      else df)"

text \<open>A sequence cell is empty when it holds the empty string or the missing value.\<close>

fun nonempty_cell :: "cell option \<Rightarrow> bool" where
  "nonempty_cell (Some (Str s)) = (s \<noteq> [])"
| "nonempty_cell (Some NaN) = False"
| "nonempty_cell _ = True"

text \<open>
  Modelled from the spec: \<^verbatim>\<open>ImportHelper.drop_empty_sequences\<close> is not among the sources.
  It drops the rows with an empty sequence of each kind whose import is not allowed. The
  meaning of its two flags is the one of the call (lines 152-153): the first,
  \<open>import_empty_aa\<close>, is \<^verbatim>\<open>import_empty_aa_sequences\<close> (the comment of line 152), the
  second, \<open>import_empty_nt\<close>, is passed \<^verbatim>\<open>params.import_empty_nt_sequences\<close>.
\<close>

definition drop_empty_sequences :: "dataframe \<Rightarrow> bool \<Rightarrow> bool \<Rightarrow> dataframe" where
  "drop_empty_sequences df import_empty_aa import_empty_nt =
     getitem_mask
       (\<lambda>r. (import_empty_aa \<or> nonempty_cell (r ''sequence_aas'')) \<and>
            (import_empty_nt \<or> nonempty_cell (r ''sequences'')))
       df"

text \<open>
  Modelled from the spec: the sequence type the surrounding system runs in is read by
  \<^verbatim>\<open>ImportHelper.drop_illegal_character_sequences\<close> from a global setting; here it is an
  argument.
\<close>

datatype SequenceType = AMINO_ACID | NUCLEOTIDE

fun sequence_column :: "SequenceType \<Rightarrow> string" where
  "sequence_column AMINO_ACID = ''sequence_aas''"
| "sequence_column NUCLEOTIDE = ''sequences''"

fun alphabet :: "SequenceType \<Rightarrow> string" where
  "alphabet AMINO_ACID = ''ACDEFGHIKLMNPQRSTVWY*''"
| "alphabet NUCLEOTIDE = ''ACGT''"

fun legal_cell :: "SequenceType \<Rightarrow> cell option \<Rightarrow> bool" where
  "legal_cell st (Some (Str s)) = list_all (\<lambda>x. x \<in> set (alphabet st)) s"
| "legal_cell st _ = True"

text \<open>
  Modelled from the spec: \<^verbatim>\<open>ImportHelper.drop_illegal_character_sequences\<close> is not among
  the sources. Unless illegal characters are imported, it drops the rows whose sequence of
  the active type has a character outside that type's alphabet (the nucleotides, or the
  20 amino acids and the stop symbol).
\<close>

definition drop_illegal_character_sequences :: "SequenceType \<Rightarrow> dataframe \<Rightarrow> bool \<Rightarrow> dataframe" where
  "drop_illegal_character_sequences st df import_illegal =
     (if import_illegal then df
      else getitem_mask (\<lambda>r. legal_cell st (r (sequence_column st))) df)"

subsection \<open>preprocess\_dataframe\<close>

text \<open>Lines 136-137: \<^verbatim>\<open>if "counts" not in df.columns: df["counts"] = 1\<close>.\<close>

definition default_counts :: "dataframe \<Rightarrow> dataframe" where
  "default_counts df =
     (if ''counts'' \<notin> set (columns df) then setitem ''counts'' (\<lambda>r. Num 1) df else df)"

text \<open>
  Line 139: \<^verbatim>\<open>df = df[df.anchors_found == "1"]\<close>. The attribute access raises when the
  table has no such column; a cell that is not the string "1" compares unequal.
\<close>

definition anchor_filter :: "dataframe \<Rightarrow> error + dataframe" where
  "anchor_filter df =
     (if ''anchors_found'' \<in> set (columns df)
      then Inr (getitem_mask (\<lambda>r. r ''anchors_found'' = Some (Str ''1'')) df)
      else Inl (AttributeError ''anchors_found''))"

text \<open>Lines 141-142.\<close>

definition frame_filter :: "DatasetImportParams \<Rightarrow> dataframe \<Rightarrow> error + dataframe" where
  "frame_filter params df =
     (if \<not> import_out_of_frame params
      then (if ''is_inframe'' \<in> set (columns df)
            then Inr (getitem_mask (\<lambda>r. r ''is_inframe'' = Some (Str ''1'')) df)
            else Inl (AttributeError ''is_inframe''))
      else Inr df)"

text \<open>
  Line 144: \<^verbatim>\<open>df["sequence_aas"] = df["sequences"].apply(IGoRImport.translate_sequence)\<close>.
  \<^verbatim>\<open>apply\<close> calls the translator on the cells in order; on a cell that is not a string,
  \<^verbatim>\<open>len\<close> raises a TypeError.
\<close>

fun apply_translate :: "row list \<Rightarrow> error + row list" where
  "apply_translate [] = Inr []"
| "apply_translate (r # rs) =
     (case r ''sequences'' of
        Some (Str s) \<Rightarrow>
          (case apply_translate rs of
             Inl e \<Rightarrow> Inl e
           | Inr rs' \<Rightarrow> Inr (r(''sequence_aas'' \<mapsto> Str (translate_sequence s)) # rs'))
      | _ \<Rightarrow> Inl TypeError)"

definition translation :: "dataframe \<Rightarrow> error + dataframe" where
  "translation df =
     (if ''sequences'' \<in> set (columns df)
      then (case apply_translate (rows df) of
              Inl e \<Rightarrow> Inl e
            | Inr rs \<Rightarrow>
                Inr (df\<lparr>columns := (if ''sequence_aas'' \<in> set (columns df) then columns df
                                     else columns df @ [''sequence_aas'']),
                        rows := rs\<rparr>))
      else Inl (KeyError ''sequences''))"

text \<open>
  Lines 146-148. \<^verbatim>\<open>"*" not in seq\<close> for the cells of \<^verbatim>\<open>sequence_aas\<close>, which line 144 has
  made strings.
\<close>

definition no_stop :: "row \<Rightarrow> bool" where
  "no_stop r = (case r ''sequence_aas'' of Some (Str seq) \<Rightarrow> CHR ''*'' \<notin> set seq | _ \<Rightarrow> True)"

definition stop_codon_filter :: "DatasetImportParams \<Rightarrow> dataframe \<Rightarrow> dataframe" where
  "stop_codon_filter params df =
     (if \<not> import_with_stop_codon params
      then (let no_stop_codon = map no_stop (rows df) in getitem_bool_list no_stop_codon df)
      else df)"

text \<open>
  Line 151: \<^verbatim>\<open>df.loc[:, "region_types"] = params.region_type.name\<close>. Setting a new
  column through \<^verbatim>\<open>.loc\<close> to a scalar on a frame without rows raises a ValueError
  ("cannot set a frame with no defined index and a scalar"); on a frame with rows, or one
  that has the column already, every row gets the cell.
\<close>

definition set_region_types :: "DatasetImportParams \<Rightarrow> dataframe \<Rightarrow> error + dataframe" where
  "set_region_types params df =
     (if rows df = [] \<and> ''region_types'' \<notin> set (columns df) then Inl ValueError
      else Inr (setitem ''region_types'' (\<lambda>r. Str (region_type_name (region_type params))) df))"

text \<open>
  \<^verbatim>\<open>IGoRImport.preprocess_dataframe\<close> (lines 135-158). The helpers change the table in
  place; here each returns the table it leaves behind. \<open>st\<close> is the sequence type of
  the environment.
\<close>

definition preprocess_dataframe ::
  "SequenceType \<Rightarrow> dataframe \<Rightarrow> DatasetImportParams \<Rightarrow> error + dataframe" where
  "preprocess_dataframe st df params =
     (case anchor_filter (default_counts df) of
        Inl e \<Rightarrow> Inl e
      | Inr df1 \<Rightarrow>
     (case frame_filter params df1 of
        Inl e \<Rightarrow> Inl e
      | Inr df2 \<Rightarrow>
     (case translation df2 of
        Inl e \<Rightarrow> Inl e
      | Inr df3 \<Rightarrow>
          (let df4 = stop_codon_filter params df3;
               df5 = junction_to_cdr3 df4 (region_type params)
           in case set_region_types params df5 of
                Inl e \<Rightarrow> Inl e
              | Inr df6 \<Rightarrow>
                  (let df7 = drop_empty_sequences df6 True (import_empty_nt_sequences params);
                       df8 = drop_illegal_character_sequences st df7 (import_illegal_characters params)
                   in Inr df8)))))"

subsection \<open>Example tables\<close>

text \<open>The two-row table of the specification's examples.\<close>

definition example_table :: dataframe where
  "example_table =
     \<lparr>columns = [''anchors_found'', ''is_inframe'', ''sequences''],
      rows = [[''anchors_found'' \<mapsto> Str ''1'', ''is_inframe'' \<mapsto> Str ''1'',
               ''sequences'' \<mapsto> Str ''ATGAAATAG''],
              [''anchors_found'' \<mapsto> Str ''0'', ''is_inframe'' \<mapsto> Str ''1'',
               ''sequences'' \<mapsto> Str ''ATGAAA'']]\<rparr>"

text \<open>A table that comes with its own \<^verbatim>\<open>counts\<close> column.\<close>

definition counted_table :: dataframe where
  "counted_table =
     \<lparr>columns = [''anchors_found'', ''is_inframe'', ''sequences'', ''counts''],
      rows = [[''anchors_found'' \<mapsto> Str ''1'', ''is_inframe'' \<mapsto> Str ''1'',
               ''sequences'' \<mapsto> Str ''TGTGCCAGCTGG'', ''counts'' \<mapsto> Num 5],
              [''anchors_found'' \<mapsto> Str ''0'', ''is_inframe'' \<mapsto> Str ''1'',
               ''sequences'' \<mapsto> Str ''TGTGCCTGG'', ''counts'' \<mapsto> Num 7]]\<rparr>"

text \<open>Tables that lack one of the columns the pipeline reads.\<close>

definition no_sequences_table :: dataframe where
  "no_sequences_table =
     \<lparr>columns = [''anchors_found'', ''is_inframe''],
      rows = [[''anchors_found'' \<mapsto> Str ''1'', ''is_inframe'' \<mapsto> Str ''1'']]\<rparr>"

definition no_anchors_table :: dataframe where
  "no_anchors_table =
     \<lparr>columns = [''is_inframe'', ''sequences''],
      rows = [[''is_inframe'' \<mapsto> Str ''1'', ''sequences'' \<mapsto> Str ''TGTGCCAGCTGG'']]\<rparr>"

definition no_inframe_table :: dataframe where
  "no_inframe_table =
     \<lparr>columns = [''anchors_found'', ''sequences''],
      rows = [[''anchors_found'' \<mapsto> Str ''1'', ''sequences'' \<mapsto> Str ''TGTGCCAGCTGG'']]\<rparr>"

text \<open>
  A junction of two full codons and two more nucleotides, and a table with a junction of
  exactly two codons.
\<close>

definition short_table :: dataframe where
  "short_table =
     \<lparr>columns = [''anchors_found'', ''is_inframe'', ''sequences''],
      rows = [[''anchors_found'' \<mapsto> Str ''1'', ''is_inframe'' \<mapsto> Str ''1'',
               ''sequences'' \<mapsto> Str ''TGTGCCAG'']]\<rparr>"

definition two_codon_table :: dataframe where
  "two_codon_table =
     \<lparr>columns = [''anchors_found'', ''is_inframe'', ''sequences''],
      rows = [[''anchors_found'' \<mapsto> Str ''1'', ''is_inframe'' \<mapsto> Str ''1'',
               ''sequences'' \<mapsto> Str ''TGTGCCAGCTGG''],
              [''anchors_found'' \<mapsto> Str ''1'', ''is_inframe'' \<mapsto> Str ''1'',
               ''sequences'' \<mapsto> Str ''TGTTGG'']]\<rparr>"

text \<open>
  A table in which the second junction holds the stop codon TAG, and a table whose only
  row has no anchors.
\<close>

definition stop_table :: dataframe where
  "stop_table =
     \<lparr>columns = [''anchors_found'', ''is_inframe'', ''sequences''],
      rows = [[''anchors_found'' \<mapsto> Str ''1'', ''is_inframe'' \<mapsto> Str ''1'',
               ''sequences'' \<mapsto> Str ''TGTGCCAGCTGG''],
              [''anchors_found'' \<mapsto> Str ''1'', ''is_inframe'' \<mapsto> Str ''1'',
               ''sequences'' \<mapsto> Str ''TGTTAGTGG'']]\<rparr>"

definition rejected_table :: dataframe where
  "rejected_table =
     \<lparr>columns = [''anchors_found'', ''is_inframe'', ''sequences''],
      rows = [[''anchors_found'' \<mapsto> Str ''0'', ''is_inframe'' \<mapsto> Str ''1'',
               ''sequences'' \<mapsto> Str ''ATGAAA'']]\<rparr>"

text \<open>
  Lines 136-144 alone: the table the stop-codon stage of lines 146-148 receives, or the
  error raised before it.
\<close>

definition up_to_translation :: "DatasetImportParams \<Rightarrow> dataframe \<Rightarrow> error + dataframe" where
  "up_to_translation params df =
     (case anchor_filter (default_counts df) of
        Inl e \<Rightarrow> Inl e
      | Inr df1 \<Rightarrow>
     (case frame_filter params df1 of
        Inl e \<Rightarrow> Inl e
      | Inr df2 \<Rightarrow> translation df2))"

section \<open>Properties of the translator\<close>

lemma codons_short: "length xs < 3 \<Longrightarrow> codons xs = []"
  by (induction xs rule: codons.induct) simp_all

lemma codons_step: "3 \<le> length xs \<Longrightarrow> codons xs = take 3 xs # codons (drop 3 xs)"
  by (induction xs rule: codons.induct) simp_all

lemma length_codons: "length (codons xs) = length xs div 3"
  by (induction xs rule: codons.induct) simp_all

lemma translate_loop_codons:
  "0 \<le> i \<Longrightarrow> i mod 3 = 0 \<Longrightarrow> e = int (length s) - int (length s) mod 3 - 1 \<Longrightarrow>
   translate_loop s e i acc = acc @ map translate_codon (codons (drop (nat i) s))"
proof (induction s e i acc rule: translate_loop.induct)
  case (1 nt_seq e i aa_seq)
  show ?case
  proof (cases "i < e")
    case True
    define n where "n = int (length nt_seq)"
    have "i + 3 \<le> n"
      using True "1.prems" unfolding n_def [symmetric] by presburger
    then have len: "3 \<le> length (drop (nat i) nt_seq)"
      using "1.prems"(1) unfolding n_def by simp
    have nxt: "nat (i + 3) = 3 + nat i"
      using "1.prems"(1) by simp
    have sl: "slice nt_seq (nat i) (nat (i + 3)) = take 3 (drop (nat i) nt_seq)"
      using "1.prems" by (simp add: slice_def nat_add_distrib)
    have ih: "translate_loop nt_seq e (i + 3) (aa_seq @ [translate_codon (slice nt_seq (nat i) (nat (i + 3)))])
        = (aa_seq @ [translate_codon (slice nt_seq (nat i) (nat (i + 3)))]) @ map translate_codon (codons (drop (nat (i + 3)) nt_seq))"
      using "1.IH" [OF True] "1.prems" by (simp add: mod_add_self2)
    show ?thesis
      using True ih by (simp add: translate_loop.simps [of nt_seq e i] codons_step [OF len] nxt slice_def)
  next
    case False
    define n where "n = int (length nt_seq)"
    have "n < i + 3"
      using False "1.prems" unfolding n_def [symmetric] by presburger
    then have "length (drop (nat i) nt_seq) < 3"
      using "1.prems"(1) unfolding n_def by simp
    then show ?thesis
      using False by (simp add: translate_loop.simps [of nt_seq e i] codons_short)
  qed
qed

lemma translate_sequence_codons:
  "translate_sequence s = concat (map translate_codon (codons s))"
  using translate_loop_codons [of 0 "int (length s) - int (length s) mod 3 - 1" s "[]"]
  by (simp add: translate_sequence_def)

lemma map_of_items_snd: "map_of CODON_TABLE_items c = Some a \<Longrightarrow> a \<in> snd ` set CODON_TABLE_items"
  by (metis map_of_SomeD image_eqI snd_conv)

lemma translate_codon_single:
  "\<exists>x \<in> set ''ACDEFGHIKLMNPQRSTVWY*_''. translate_codon c = [x]"
proof (cases "CODON_TABLE c")
  case None
  then show ?thesis by (simp add: translate_codon_def)
next
  case (Some a)
  then have "a \<in> snd ` set CODON_TABLE_items"
    by (simp add: CODON_TABLE_def map_of_items_snd)
  then have "\<exists>x \<in> set ''ACDEFGHIKLMNPQRSTVWY*_''. a = [x]"
    unfolding CODON_TABLE_items_def by auto
  then show ?thesis using Some by (simp add: translate_codon_def)
qed

lemma length_translate_codon: "length (translate_codon c) = 1"
  using translate_codon_single [of c] by auto

lemma length_concat_singles: "(\<And>x. length (f x) = 1) \<Longrightarrow> length (concat (map f xs)) = length xs"
  by (induction xs) simp_all

lemma length_translate_sequence: "length (translate_sequence s) = length s div 3"
  by (simp add: translate_sequence_codons length_concat_singles length_translate_codon length_codons)

lemma drop_3_Cons: "drop (3 + m) (a # b # c # rest) = drop m rest"
  by (simp add: numeral_3_eq_3)

lemma codons_nth: "k < length s div 3 \<Longrightarrow> codons s ! k = slice s (3 * k) (3 * k + 3)"
proof (induction s arbitrary: k rule: codons.induct)
  case (1 a b c rest)
  then show ?case by (cases k) (simp_all add: slice_def drop_3_Cons)
qed simp_all

lemma concat_singles_nth:
  "(\<And>x. length (f x) = 1) \<Longrightarrow> k < length xs \<Longrightarrow> concat (map f xs) ! k = hd (f (xs ! k))"
proof (induction xs arbitrary: k)
  case (Cons x xs)
  obtain y where y: "f x = [y]" using Cons.prems(1) [of x] by (cases "f x") auto
  show ?case using Cons y by (cases k) simp_all
qed simp

lemma translate_sequence_nth:
  "k < length s div 3 \<Longrightarrow> translate_sequence s ! k = hd (translate_codon (slice s (3 * k) (3 * k + 3)))"
  by (simp add: translate_sequence_codons concat_singles_nth length_translate_codon length_codons codons_nth)

text \<open>
  C1. On each of the 64 triplets of the standard genetic code \<^verbatim>\<open>translate_sequence\<close>
  returns the residue of that code; the triplets are exactly the keys of \<^verbatim>\<open>CODON_TABLE\<close>,
  on each key the translator returns the value the table holds, and TAA, TAG and TGA
  give the stop symbol.
\<close>

theorem translate_sequence_codon_table:
  "map translate_sequence standard_codons = map (\<lambda>x. [x]) standard_residues \<and>
   map (\<lambda>(codon, aminoacid). translate_sequence codon) CODON_TABLE_items = map snd CODON_TABLE_items \<and>
   distinct standard_codons \<and> length standard_codons = 64 \<and>
   set (map fst CODON_TABLE_items) = set standard_codons \<and>
   translate_sequence ''TAA'' = ''*'' \<and> translate_sequence ''TAG'' = ''*'' \<and>
   translate_sequence ''TGA'' = ''*''"
proof (intro conjI)
  show "map translate_sequence standard_codons = map (\<lambda>x. [x]) standard_residues"
    by code_simp
  show "map (\<lambda>(codon, aminoacid). translate_sequence codon) CODON_TABLE_items = map snd CODON_TABLE_items"
    by code_simp
  show "distinct standard_codons" by code_simp
  show "length standard_codons = 64" by code_simp
  show "set (map fst CODON_TABLE_items) = set standard_codons" by code_simp
  show "translate_sequence ''TAA'' = ''*''" by code_simp
  show "translate_sequence ''TAG'' = ''*''" by code_simp
  show "translate_sequence ''TGA'' = ''*''" by code_simp
qed

text \<open>
  C2. The result of \<^verbatim>\<open>translate_sequence\<close> has length \<open>len(s) // 3\<close>: it is the residues of
  the non-overlapping triplets of the input taken left to right, the one or two characters
  left over being discarded; the empty input gives the empty output.
\<close>

theorem translate_sequence_length:
  "length (translate_sequence s) = length s div 3 \<and>
   translate_sequence s = concat (map translate_codon (codons s)) \<and>
   translate_sequence [] = []"
proof (intro conjI)
  show "length (translate_sequence s) = length s div 3"
    by (rule length_translate_sequence)
  show "translate_sequence s = concat (map translate_codon (codons s))"
    by (rule translate_sequence_codons)
  show "translate_sequence [] = []"
    by (simp add: translate_sequence_codons)
qed

text \<open>
  C3. A full codon of the input, the \<open>k\<close>-th triplet \<^verbatim>\<open>s[3k:3k+3]\<close>, that is not a key of
  \<^verbatim>\<open>CODON_TABLE\<close> gives the placeholder \<open>_\<close> at position \<open>k\<close> of the output, and no error;
  \<^verbatim>\<open>translate_sequence("ATGNNN")\<close> is \<^verbatim>\<open>"M_"\<close>.
\<close>

theorem translate_sequence_unknown_codon:
  "(\<forall>k < length s div 3. CODON_TABLE (slice s (3 * k) (3 * k + 3)) = None \<longrightarrow>
      translate_sequence s ! k = CHR ''_'') \<and>
   translate_sequence ''ATGNNN'' = ''M_''"
proof (intro conjI allI impI)
  fix k assume "k < length s div 3" and "CODON_TABLE (slice s (3 * k) (3 * k + 3)) = None"
  then show "translate_sequence s ! k = CHR ''_''"
    by (simp add: translate_sequence_nth translate_codon_def)
next
  show "translate_sequence ''ATGNNN'' = ''M_''" by code_simp
qed

theorem translate_sequence_unknown_codon_witness:
  "(1::nat) < length ''ATGNNN'' div 3 \<and> CODON_TABLE (slice ''ATGNNN'' (3 * 1) (3 * 1 + 3)) = None \<and>
   translate_sequence ''ATGNNN'' ! 1 = CHR ''_''"
proof -
  have k: "(1::nat) < length ''ATGNNN'' div 3" by simp
  have n: "CODON_TABLE (slice ''ATGNNN'' (3 * 1) (3 * 1 + 3)) = None"
    by (simp add: slice_def CODON_TABLE_def CODON_TABLE_items_def)
  from translate_sequence_unknown_codon [of "''ATGNNN''"] k n
  have "translate_sequence ''ATGNNN'' ! 1 = CHR ''_''" by blast
  with k n show ?thesis by blast
qed

text \<open>
  C10. \<^verbatim>\<open>translate_sequence\<close> is a total function of its input string: its loop is defined
  with a termination proof and no branch of it is an error. Every character of its result
  is one of the 20 amino-acid letters, the stop symbol \<open>*\<close> or the placeholder \<open>_\<close>.
\<close>

theorem translate_sequence_alphabet:
  "set (translate_sequence s) \<subseteq> set ''ACDEFGHIKLMNPQRSTVWY*_''"
proof
  fix x assume "x \<in> set (translate_sequence s)"
  then have "x \<in> set (concat (map translate_codon (codons s)))"
    by (simp only: translate_sequence_codons)
  then obtain c where "x \<in> set (translate_codon c)"
    by auto
  moreover obtain y where "y \<in> set ''ACDEFGHIKLMNPQRSTVWY*_''" and "translate_codon c = [y]"
    using translate_codon_single [of c] by blast
  ultimately show "x \<in> set ''ACDEFGHIKLMNPQRSTVWY*_''"
    by simp
qed

section \<open>Properties of the row pipeline\<close>

subsection \<open>Rows and columns after each stage\<close>

lemma mask_zip_filter: "map snd (filter fst (zip (map p xs) xs)) = filter p xs"
  by (induction xs) simp_all

lemma rows_getitem_mask: "rows (getitem_mask p df) = filter p (rows df)"
  by (simp add: getitem_mask_def)

lemma columns_getitem_mask: "columns (getitem_mask p df) = columns df"
  by (simp add: getitem_mask_def)

lemma rows_setitem: "rows (setitem c v df) = map (\<lambda>r. r(c \<mapsto> v r)) (rows df)"
  by (simp add: setitem_def)

lemma set_columns_setitem: "set (columns (setitem c v df)) = insert c (set (columns df))"
  by (auto simp: setitem_def)

lemma rows_stop_codon_filter:
  "rows (stop_codon_filter params df) =
     (if import_with_stop_codon params then rows df else filter no_stop (rows df))"
  by (simp add: stop_codon_filter_def getitem_bool_list_def mask_zip_filter)

lemma columns_stop_codon_filter:
  "import_with_stop_codon params \<or> rows df \<noteq> [] \<Longrightarrow> columns (stop_codon_filter params df) = columns df"
  by (auto simp: stop_codon_filter_def getitem_bool_list_def)

lemma rows_junction_to_cdr3:
  "rows (junction_to_cdr3 df rt) =
     map (\<lambda>r. if rt = IMGT_CDR3 then strip_cell ''sequences'' 3 (strip_cell ''sequence_aas'' 1 r) else r)
       (rows df)"
  by (simp add: junction_to_cdr3_def)

lemma anchor_filter_Inr:
  "anchor_filter df = Inr df1 \<Longrightarrow>
   ''anchors_found'' \<in> set (columns df) \<and> columns df1 = columns df \<and>
   rows df1 = filter (\<lambda>r. r ''anchors_found'' = Some (Str ''1'')) (rows df)"
  by (auto simp: anchor_filter_def getitem_mask_def split: if_splits)

lemma frame_filter_Inr:
  "frame_filter params df = Inr df2 \<Longrightarrow>
   (import_out_of_frame params \<or> ''is_inframe'' \<in> set (columns df)) \<and> columns df2 = columns df \<and>
   rows df2 = (if import_out_of_frame params then rows df
               else filter (\<lambda>r. r ''is_inframe'' = Some (Str ''1'')) (rows df))"
  by (auto simp: frame_filter_def getitem_mask_def split: if_splits)


lemma translation_Inr:
  "translation df = Inr df3 \<Longrightarrow>
   ''sequences'' \<in> set (columns df) \<and>
   set (columns df3) = insert ''sequence_aas'' (set (columns df)) \<and>
   apply_translate (rows df) = Inr (rows df3)"
  by (auto simp: translation_def split: if_splits sum.splits)

lemma set_region_types_Inr:
  "set_region_types params df = Inr df6 \<Longrightarrow>
   df6 = setitem ''region_types'' (\<lambda>r. Str (region_type_name (region_type params))) df \<and>
   (rows df \<noteq> [] \<or> ''region_types'' \<in> set (columns df))"
  by (auto simp: set_region_types_def split: if_splits)

lemma preprocess_dataframe_Inr:
  assumes "preprocess_dataframe st df params = Inr out"
  shows "\<exists>df1 df2 df3.
     anchor_filter (default_counts df) = Inr df1 \<and> frame_filter params df1 = Inr df2 \<and>
     translation df2 = Inr df3 \<and>
     out = drop_illegal_character_sequences st
             (drop_empty_sequences
                (setitem ''region_types'' (\<lambda>r. Str (region_type_name (region_type params)))
                   (junction_to_cdr3 (stop_codon_filter params df3) (region_type params)))
                True (import_empty_nt_sequences params))
             (import_illegal_characters params)"
proof -
  from assms obtain df1 df2 df3 df6 where
    d: "anchor_filter (default_counts df) = Inr df1" "frame_filter params df1 = Inr df2"
       "translation df2 = Inr df3" and
    d6: "set_region_types params (junction_to_cdr3 (stop_codon_filter params df3) (region_type params))
           = Inr df6" and
    o: "out = drop_illegal_character_sequences st
               (drop_empty_sequences df6 True (import_empty_nt_sequences params))
               (import_illegal_characters params)"
    by (auto simp: preprocess_dataframe_def Let_def split: sum.splits)
  from set_region_types_Inr [OF d6] o d show ?thesis by blast
qed

subsection \<open>The values of a column through the stages\<close>

lemma cv_getitem_mask: "subseq (column_values c (getitem_mask p df)) (column_values c df)"
  by (simp add: column_values_def getitem_mask_def subseq_map)

lemma cv_setitem: "c \<noteq> c' \<Longrightarrow> column_values c (setitem c' v df) = column_values c df"
  by (simp add: column_values_def setitem_def)

lemma cv_default_counts:
  "c = ''counts'' \<longrightarrow> ''counts'' \<in> set (columns df) \<Longrightarrow>
   column_values c (default_counts df) = column_values c df"
  by (auto simp: default_counts_def cv_setitem)

lemma cv_anchor_filter:
  "anchor_filter df = Inr df1 \<Longrightarrow> subseq (column_values c df1) (column_values c df)"
  by (auto simp: anchor_filter_def cv_getitem_mask split: if_splits)

lemma cv_frame_filter:
  "frame_filter params df = Inr df2 \<Longrightarrow> subseq (column_values c df2) (column_values c df)"
  by (auto simp: frame_filter_def cv_getitem_mask split: if_splits)

lemma cv_apply_translate:
  "apply_translate rs = Inr rs' \<Longrightarrow> c \<noteq> ''sequence_aas'' \<Longrightarrow> map (\<lambda>r. r c) rs' = map (\<lambda>r. r c) rs"
  by (induction rs arbitrary: rs') (auto split: option.splits cell.splits sum.splits)

lemma cv_translation:
  "translation df = Inr df3 \<Longrightarrow> c \<noteq> ''sequence_aas'' \<Longrightarrow> column_values c df3 = column_values c df"
  using cv_apply_translate [of "rows df" "rows df3" c] translation_Inr [of df df3]
  by (simp add: column_values_def)

lemma cv_stop_codon_filter:
  "subseq (column_values c (stop_codon_filter params df)) (column_values c df)"
  by (simp add: column_values_def rows_stop_codon_filter subseq_map)

lemma strip_cell_other: "c \<noteq> c' \<Longrightarrow> strip_cell c' n r c = r c"
  by (simp add: strip_cell_def split: option.splits cell.splits)

lemma cv_junction_to_cdr3:
  "c \<noteq> ''sequences'' \<Longrightarrow> c \<noteq> ''sequence_aas'' \<Longrightarrow>
   column_values c (junction_to_cdr3 df rt) = column_values c df"
  by (simp add: column_values_def junction_to_cdr3_def strip_cell_other)

lemma cv_drop_empty_sequences:
  "subseq (column_values c (drop_empty_sequences df a n)) (column_values c df)"
  by (simp add: drop_empty_sequences_def cv_getitem_mask)

lemma cv_drop_illegal_character_sequences:
  "subseq (column_values c (drop_illegal_character_sequences st df i)) (column_values c df)"
  by (simp add: drop_illegal_character_sequences_def cv_getitem_mask)

lemma cv_after_translation:
  assumes "c \<noteq> ''sequences''" "c \<noteq> ''sequence_aas''" "c \<noteq> ''region_types''"
  shows "subseq
     (column_values c
        (drop_illegal_character_sequences st
           (drop_empty_sequences
              (setitem ''region_types'' (\<lambda>r. Str (region_type_name (region_type params))) (junction_to_cdr3 (stop_codon_filter params df3) rt))
              a n) i))
     (column_values c df3)"
proof -
  let ?d4 = "stop_codon_filter params df3"
  let ?d6 = "setitem ''region_types'' (\<lambda>r. Str (region_type_name (region_type params))) (junction_to_cdr3 ?d4 rt)"
  let ?d7 = "drop_empty_sequences ?d6 a n"
  have "column_values c ?d6 = column_values c ?d4"
    using assms by (simp add: cv_setitem cv_junction_to_cdr3)
  then have "subseq (column_values c ?d6) (column_values c df3)"
    by (simp add: cv_stop_codon_filter)
  then have "subseq (column_values c ?d7) (column_values c df3)"
    using cv_drop_empty_sequences [of c ?d6 a n] by (rule subseq_order.trans [rotated])
  then show ?thesis
    using cv_drop_illegal_character_sequences [of c st ?d7 i] by (rule subseq_order.trans [rotated])
qed

lemma cv_after_anchor_filter:
  assumes "preprocess_dataframe st df params = Inr out"
    and "c \<noteq> ''sequences''" "c \<noteq> ''sequence_aas''" "c \<noteq> ''region_types''"
  shows "\<exists>df1. anchor_filter (default_counts df) = Inr df1 \<and>
               subseq (column_values c out) (column_values c df1)"
proof -
  from preprocess_dataframe_Inr [OF assms(1)] obtain df1 df2 df3 where
    d1: "anchor_filter (default_counts df) = Inr df1" and
    d2: "frame_filter params df1 = Inr df2" and
    d3: "translation df2 = Inr df3" and
    o: "out = drop_illegal_character_sequences st
             (drop_empty_sequences
                (setitem ''region_types'' (\<lambda>r. Str (region_type_name (region_type params)))
                   (junction_to_cdr3 (stop_codon_filter params df3) (region_type params)))
                True (import_empty_nt_sequences params))
             (import_illegal_characters params)"
    by blast
  have "subseq (column_values c out) (column_values c df3)"
    unfolding o using assms(2-4) by (rule cv_after_translation)
  then have "subseq (column_values c out) (column_values c df2)"
    using cv_translation [OF d3 assms(3)] by simp
  then have "subseq (column_values c out) (column_values c df1)"
    using cv_frame_filter [OF d2, of c] by (rule subseq_order.trans)
  with d1 show ?thesis by blast
qed

lemma cv_preprocess_dataframe:
  assumes "preprocess_dataframe st df params = Inr out"
    and "c \<noteq> ''sequences''" "c \<noteq> ''sequence_aas''" "c \<noteq> ''region_types''"
    and "c = ''counts'' \<longrightarrow> ''counts'' \<in> set (columns df)"
  shows "subseq (column_values c out) (column_values c df)"
proof -
  from cv_after_anchor_filter [OF assms(1-4)] obtain df1 where
    d1: "anchor_filter (default_counts df) = Inr df1" and
    s: "subseq (column_values c out) (column_values c df1)"
    by blast
  have "subseq (column_values c df1) (column_values c df)"
    using cv_anchor_filter [OF d1, of c] cv_default_counts [OF assms(5)] by simp
  with s show ?thesis by (rule subseq_order.trans)
qed

lemma subseq_set_mono: "subseq xs ys \<Longrightarrow> set xs \<subseteq> set ys"
  by (auto dest: list_emb_set)

lemma anchors_after_filter:
  "anchor_filter df = Inr df1 \<Longrightarrow> set (column_values ''anchors_found'' df1) \<subseteq> {Some (Str ''1'')}"
  by (auto simp: column_values_def dest!: anchor_filter_Inr)

lemma anchors_found_of_result:
  assumes "preprocess_dataframe st df params = Inr out"
  shows "(\<forall>r \<in> set (rows out). r ''anchors_found'' = Some (Str ''1'')) \<and>
         (\<exists>df1. anchor_filter (default_counts df) = Inr df1 \<and>
                subseq (column_values ''anchors_found'' out) (column_values ''anchors_found'' df1)) \<and>
         subseq (column_values ''anchors_found'' out) (column_values ''anchors_found'' df)"
proof -
  from cv_after_anchor_filter [OF assms, of "''anchors_found''"] obtain df1 where
    d1: "anchor_filter (default_counts df) = Inr df1" and
    s: "subseq (column_values ''anchors_found'' out) (column_values ''anchors_found'' df1)"
    by auto
  have "set (column_values ''anchors_found'' out) \<subseteq> {Some (Str ''1'')}"
    using subseq_set_mono [OF s] anchors_after_filter [OF d1] by blast
  then have all: "\<forall>r \<in> set (rows out). r ''anchors_found'' = Some (Str ''1'')"
    by (auto simp: column_values_def)
  have "subseq (column_values ''anchors_found'' out) (column_values ''anchors_found'' df)"
    using cv_preprocess_dataframe [OF assms, of "''anchors_found''"] by simp
  with all d1 s show ?thesis by blast
qed

text \<open>
  C6. Every row of a table \<^verbatim>\<open>preprocess_dataframe\<close> returns has \<^verbatim>\<open>anchors_found == "1"\<close>
  and no later stage writes the column (\<open>anchors_found_of_result\<close>). The rows with another
  value, however, are not always dropped silently: when line 139 rejects every row, line
  151 is reached with a frame without rows and raises a ValueError, under every
  configuration. Here the table whose only row has \<^verbatim>\<open>anchors_found == "0"\<close>.
\<close>

theorem rejected_rows_raise:
  "preprocess_dataframe st rejected_table params = Inl ValueError"
proof -
  let ?d1 = "getitem_mask (\<lambda>r. r ''anchors_found'' = Some (Str ''1'')) (default_counts rejected_table)"
  have r1: "rows ?d1 = []"
    by (simp add: rejected_table_def default_counts_def setitem_def getitem_mask_def)
  have c1: "columns ?d1 = [''anchors_found'', ''is_inframe'', ''sequences'', ''counts'']"
    by (simp add: rejected_table_def default_counts_def setitem_def getitem_mask_def)
  have d1: "anchor_filter (default_counts rejected_table) = Inr ?d1"
    by (simp add: anchor_filter_def rejected_table_def default_counts_def setitem_def)
  have d2: "\<exists>df2. frame_filter params ?d1 = Inr df2 \<and> rows df2 = [] \<and> columns df2 = columns ?d1"
    using r1 c1 by (simp add: frame_filter_def getitem_mask_def)
  then obtain df2 where d2: "frame_filter params ?d1 = Inr df2" and r2: "rows df2 = []"
    and c2: "columns df2 = columns ?d1"
    by blast
  let ?d3 = "df2\<lparr>columns := columns df2 @ [''sequence_aas''], rows := []\<rparr>"
  have d3: "translation df2 = Inr ?d3"
    using r2 c2 c1 by (simp add: translation_def)
  let ?d5 = "junction_to_cdr3 (stop_codon_filter params ?d3) (region_type params)"
  have "rows ?d5 = []"
    by (simp add: rows_junction_to_cdr3 rows_stop_codon_filter)
  moreover have "''region_types'' \<notin> set (columns ?d5)"
    using c2 c1 by (simp add: junction_to_cdr3_def stop_codon_filter_def getitem_bool_list_def)
  ultimately have "set_region_types params ?d5 = Inl ValueError"
    by (simp add: set_region_types_def)
  then show ?thesis
    using d1 d2 d3 by (simp add: preprocess_dataframe_def Let_def)
qed






lemma apply_translate_total:
  "list_all (\<lambda>r. \<exists>s. r ''sequences'' = Some (Str s)) rs \<Longrightarrow> \<exists>rs'. apply_translate rs = Inr rs'"
  by (induction rs) auto

lemma columns_default_counts: "set (columns (default_counts df)) = insert ''counts'' (set (columns df))"
  by (auto simp: default_counts_def setitem_def)

lemma rows_default_counts:
  "r \<in> set (rows (default_counts df)) \<Longrightarrow>
   \<exists>r0 \<in> set (rows df). \<forall>c. c \<noteq> ''counts'' \<longrightarrow> r c = r0 c"
  by (auto simp: default_counts_def setitem_def split: if_splits)

lemma apply_translate_mem:
  "apply_translate rs = Inr rs' \<Longrightarrow> r \<in> set rs \<Longrightarrow> r ''sequences'' = Some (Str s) \<Longrightarrow>
   r(''sequence_aas'' \<mapsto> Str (translate_sequence s)) \<in> set rs'"
proof (induction rs arbitrary: rs')
  case Nil
  then show ?case by simp
next
  case (Cons r0 rs)
  from Cons.prems(1) obtain s0 rs0 where
    s0: "r0 ''sequences'' = Some (Str s0)" and rs0: "apply_translate rs = Inr rs0" and
    eq: "rs' = r0(''sequence_aas'' \<mapsto> Str (translate_sequence s0)) # rs0"
    by (auto split: option.splits cell.splits sum.splits)
  show ?case
  proof (cases "r = r0")
    case True
    then have "s0 = s" using s0 Cons.prems(3) by simp
    then have "rs' = r(''sequence_aas'' \<mapsto> Str (translate_sequence s)) # rs0"
      using eq True by (simp only:)
    then show ?thesis by (simp only: list.set insertI1)
  next
    case False
    then have "r \<in> set rs" using Cons.prems(2) by simp
    from Cons.IH [OF rs0 this Cons.prems(3)] show ?thesis using eq by simp
  qed
qed

lemma apply_translate_Inl: "apply_translate rs = Inl e \<Longrightarrow> e = TypeError"
  by (induction rs) (auto split: option.splits cell.splits sum.splits)

text \<open>
  C9. A table without the \<^verbatim>\<open>sequences\<close> column, without the \<^verbatim>\<open>anchors_found\<close> column, or,
  when \<^verbatim>\<open>import_out_of_frame\<close> is false, without the \<^verbatim>\<open>is_inframe\<close> column makes
  \<^verbatim>\<open>preprocess_dataframe\<close> raise. When \<^verbatim>\<open>import_out_of_frame\<close> is true the column
  \<^verbatim>\<open>is_inframe\<close> is never read: no run raises the error of a missing \<^verbatim>\<open>is_inframe\<close>, and a
  table with the other two columns, whose rows with \<^verbatim>\<open>anchors_found == "1"\<close> hold strings
  as sequences and one of which passes the stop-codon stage, gives a result table.
\<close>

theorem missing_column_is_error:
  "((''sequences'' \<notin> set (columns df) \<or> ''anchors_found'' \<notin> set (columns df) \<or>
     (\<not> import_out_of_frame params \<and> ''is_inframe'' \<notin> set (columns df))) \<longrightarrow>
      isl (preprocess_dataframe st df params)) \<and>
   (import_out_of_frame params \<longrightarrow>
      preprocess_dataframe st df params \<noteq> Inl (AttributeError ''is_inframe'')) \<and>
   ((import_out_of_frame params \<and> ''anchors_found'' \<in> set (columns df) \<and>
     ''sequences'' \<in> set (columns df) \<and>
     list_all (\<lambda>r. r ''anchors_found'' = Some (Str ''1'') \<longrightarrow> (\<exists>s. r ''sequences'' = Some (Str s)))
       (rows df) \<and>
     (\<exists>r \<in> set (rows df). r ''anchors_found'' = Some (Str ''1'') \<and>
        (\<exists>s. r ''sequences'' = Some (Str s) \<and>
             (import_with_stop_codon params \<or> CHR ''*'' \<notin> set (translate_sequence s))))) \<longrightarrow>
      \<not> isl (preprocess_dataframe st df params))"
proof (intro conjI impI)
  assume missing: "''sequences'' \<notin> set (columns df) \<or> ''anchors_found'' \<notin> set (columns df) \<or>
     (\<not> import_out_of_frame params \<and> ''is_inframe'' \<notin> set (columns df))"
  show "isl (preprocess_dataframe st df params)"
  proof (rule ccontr)
    assume "\<not> isl (preprocess_dataframe st df params)"
    then obtain out where "preprocess_dataframe st df params = Inr out"
      by (cases "preprocess_dataframe st df params") simp_all
    from preprocess_dataframe_Inr [OF this] obtain df1 df2 df3 where
      d1: "anchor_filter (default_counts df) = Inr df1" and
      d2: "frame_filter params df1 = Inr df2" and
      d3: "translation df2 = Inr df3"
      by blast
    have c1: "''anchors_found'' \<in> set (columns df)" and k1: "set (columns df1) = insert ''counts'' (set (columns df))"
      using anchor_filter_Inr [OF d1] by (auto simp: columns_default_counts)
    have c2: "import_out_of_frame params \<or> ''is_inframe'' \<in> set (columns df)" and k2: "columns df2 = columns df1"
      using frame_filter_Inr [OF d2] k1 by auto
    have c3: "''sequences'' \<in> set (columns df)"
      using translation_Inr [OF d3] k1 k2 by auto
    from missing c1 c2 c3 show False by blast
  qed
next
  assume oof: "import_out_of_frame params"
  show "preprocess_dataframe st df params \<noteq> Inl (AttributeError ''is_inframe'')"
  proof
    assume e: "preprocess_dataframe st df params = Inl (AttributeError ''is_inframe'')"
    show False
    proof (cases "anchor_filter (default_counts df)")
      case (Inl e1)
      then have "e1 = AttributeError ''anchors_found''"
        by (auto simp: anchor_filter_def split: if_splits)
      then show False using e Inl by (simp add: preprocess_dataframe_def)
    next
      case (Inr df1)
      have d2: "frame_filter params df1 = Inr df1" using oof by (simp add: frame_filter_def)
      show False
      proof (cases "translation df1")
        case (Inl e3)
        then have "e3 = KeyError ''sequences'' \<or> e3 = TypeError"
          by (auto simp: translation_def split: if_splits sum.splits dest: apply_translate_Inl)
        then show False using e Inr d2 Inl by (auto simp: preprocess_dataframe_def)
      next
        case d3: (Inr df3)
        show False
          using e Inr d2 d3
          by (auto simp: preprocess_dataframe_def Let_def set_region_types_def
              split: sum.splits if_splits)
      qed
    qed
  qed
next
  assume ok: "import_out_of_frame params \<and> ''anchors_found'' \<in> set (columns df) \<and>
     ''sequences'' \<in> set (columns df) \<and>
     list_all (\<lambda>r. r ''anchors_found'' = Some (Str ''1'') \<longrightarrow> (\<exists>s. r ''sequences'' = Some (Str s)))
       (rows df) \<and>
     (\<exists>r \<in> set (rows df). r ''anchors_found'' = Some (Str ''1'') \<and>
        (\<exists>s. r ''sequences'' = Some (Str s) \<and>
             (import_with_stop_codon params \<or> CHR ''*'' \<notin> set (translate_sequence s))))"
  let ?d0 = "default_counts df"
  let ?d1 = "getitem_mask (\<lambda>r. r ''anchors_found'' = Some (Str ''1'')) ?d0"
  have d1: "anchor_filter ?d0 = Inr ?d1"
    using ok by (simp add: anchor_filter_def columns_default_counts)
  have d2: "frame_filter params ?d1 = Inr ?d1"
    using ok by (simp add: frame_filter_def)
  have "list_all (\<lambda>r. \<exists>s. r ''sequences'' = Some (Str s)) (rows ?d1)"
    unfolding list_all_iff
  proof
    fix r assume "r \<in> set (rows ?d1)"
    then have r: "r \<in> set (rows ?d0)" and a: "r ''anchors_found'' = Some (Str ''1'')"
      by (simp_all add: rows_getitem_mask)
    from rows_default_counts [OF r] obtain r0 where
      r0: "r0 \<in> set (rows df)" and same: "\<forall>c. c \<noteq> ''counts'' \<longrightarrow> r c = r0 c"
      by blast
    have "r0 ''anchors_found'' = Some (Str ''1'')" using a same by simp
    then have "\<exists>s. r0 ''sequences'' = Some (Str s)"
      using ok r0 by (auto simp: list_all_iff)
    then show "\<exists>s. r ''sequences'' = Some (Str s)" using same by simp
  qed
  from apply_translate_total [OF this] obtain rs where rs: "apply_translate (rows ?d1) = Inr rs"
    by blast
  have "''sequences'' \<in> set (columns ?d1)"
    using ok by (simp add: columns_getitem_mask columns_default_counts)
  then obtain df3 where d3: "translation ?d1 = Inr df3" and r3: "rows df3 = rs"
    using rs by (simp add: translation_def)
  from ok obtain r0 s where r0: "r0 \<in> set (rows df)" and a0: "r0 ''anchors_found'' = Some (Str ''1'')"
    and s0: "r0 ''sequences'' = Some (Str s)"
    and st0: "import_with_stop_codon params \<or> CHR ''*'' \<notin> set (translate_sequence s)"
    by blast
  have "\<exists>r \<in> set (rows ?d0). r ''anchors_found'' = Some (Str ''1'') \<and> r ''sequences'' = Some (Str s)"
  proof (cases "''counts'' \<in> set (columns df)")
    case True
    then show ?thesis using r0 a0 s0 by (auto simp: default_counts_def)
  next
    case False
    then have "r0(''counts'' \<mapsto> Num 1) \<in> set (rows ?d0)"
      using r0 by (simp add: default_counts_def setitem_def)
    then show ?thesis using a0 s0 by (intro bexI [of _ "r0(''counts'' \<mapsto> Num 1)"]) simp_all
  qed
  then obtain r1 where r1: "r1 \<in> set (rows ?d1)" and s1: "r1 ''sequences'' = Some (Str s)"
    by (auto simp: rows_getitem_mask)
  let ?r3 = "r1(''sequence_aas'' \<mapsto> Str (translate_sequence s))"
  have m3: "?r3 \<in> set (rows df3)"
    using apply_translate_mem [OF rs r1 s1] r3 by simp
  have "import_with_stop_codon params \<or> no_stop ?r3"
    using st0 by (simp add: no_stop_def)
  then have "?r3 \<in> set (rows (stop_codon_filter params df3))"
    using m3 by (auto simp: rows_stop_codon_filter)
  then have "rows (junction_to_cdr3 (stop_codon_filter params df3) (region_type params)) \<noteq> []"
    by (auto simp: rows_junction_to_cdr3)
  then have "\<not> isl (set_region_types params
                 (junction_to_cdr3 (stop_codon_filter params df3) (region_type params)))"
    by (simp add: set_region_types_def)
  then show "\<not> isl (preprocess_dataframe st df params)"
    using d1 d2 d3 by (auto simp: preprocess_dataframe_def Let_def split: sum.splits)
qed

theorem missing_column_is_error_witness:
  "''sequences'' \<notin> set (columns no_sequences_table) \<and>
   isl (preprocess_dataframe AMINO_ACID no_sequences_table default_params) \<and>
   ''anchors_found'' \<notin> set (columns no_anchors_table) \<and>
   isl (preprocess_dataframe AMINO_ACID no_anchors_table default_params) \<and>
   \<not> import_out_of_frame default_params \<and> ''is_inframe'' \<notin> set (columns no_inframe_table) \<and>
   isl (preprocess_dataframe AMINO_ACID no_inframe_table default_params) \<and>
   import_out_of_frame (default_params\<lparr>import_out_of_frame := True\<rparr>) \<and>
   preprocess_dataframe AMINO_ACID no_inframe_table (default_params\<lparr>import_out_of_frame := True\<rparr>)
     \<noteq> Inl (AttributeError ''is_inframe'') \<and>
   translate_sequence ''TGTGCCAGCTGG'' = ''CASW'' \<and>
   \<not> isl (preprocess_dataframe AMINO_ACID no_inframe_table (default_params\<lparr>import_out_of_frame := True\<rparr>))"
proof -
  let ?p = "default_params\<lparr>import_out_of_frame := True\<rparr>"
  have s: "''sequences'' \<notin> set (columns no_sequences_table)"
    by (simp add: no_sequences_table_def)
  have a: "''anchors_found'' \<notin> set (columns no_anchors_table)"
    by (simp add: no_anchors_table_def)
  have f: "\<not> import_out_of_frame default_params" "''is_inframe'' \<notin> set (columns no_inframe_table)"
    by (simp_all add: no_inframe_table_def default_params_def)
  have t: "translate_sequence ''TGTGCCAGCTGG'' = ''CASW''" by code_simp
  have g: "import_out_of_frame ?p"
    "''anchors_found'' \<in> set (columns no_inframe_table)"
    "''sequences'' \<in> set (columns no_inframe_table)"
    "list_all (\<lambda>r. r ''anchors_found'' = Some (Str ''1'') \<longrightarrow> (\<exists>s. r ''sequences'' = Some (Str s)))
       (rows no_inframe_table)"
    by (simp_all add: no_inframe_table_def)
  have h: "\<exists>r \<in> set (rows no_inframe_table). r ''anchors_found'' = Some (Str ''1'') \<and>
        (\<exists>s. r ''sequences'' = Some (Str s) \<and>
             (import_with_stop_codon ?p \<or> CHR ''*'' \<notin> set (translate_sequence s)))"
    by (simp add: no_inframe_table_def t)
  have e1: "isl (preprocess_dataframe AMINO_ACID no_sequences_table default_params)"
    using missing_column_is_error [of no_sequences_table default_params AMINO_ACID] s by blast
  have e2: "isl (preprocess_dataframe AMINO_ACID no_anchors_table default_params)"
    using missing_column_is_error [of no_anchors_table default_params AMINO_ACID] a by blast
  have e3: "isl (preprocess_dataframe AMINO_ACID no_inframe_table default_params)"
    using missing_column_is_error [of no_inframe_table default_params AMINO_ACID] f by blast
  note inst = missing_column_is_error [of no_inframe_table ?p AMINO_ACID]
  have e4: "preprocess_dataframe AMINO_ACID no_inframe_table ?p \<noteq> Inl (AttributeError ''is_inframe'')"
    using inst g(1) by blast
  have e5: "\<not> isl (preprocess_dataframe AMINO_ACID no_inframe_table ?p)"
    using inst g h by blast
  from s a f g(1) e1 e2 e3 e4 e5 t show ?thesis by blast
qed

subsection \<open>The rows of the result\<close>

lemma row_of_apply_translate:
  "apply_translate rs = Inr rs' \<Longrightarrow> r' \<in> set rs' \<Longrightarrow>
   \<exists>r \<in> set rs. \<exists>s. r ''sequences'' = Some (Str s) \<and>
                      r' = r(''sequence_aas'' \<mapsto> Str (translate_sequence s))"
proof (induction rs arbitrary: rs')
  case Nil
  then show ?case by simp
next
  case (Cons r rs)
  from Cons.prems(1) obtain s rs0 where
    s: "r ''sequences'' = Some (Str s)" and rs0: "apply_translate rs = Inr rs0" and
    eq: "rs' = r(''sequence_aas'' \<mapsto> Str (translate_sequence s)) # rs0"
    by (auto split: option.splits cell.splits sum.splits)
  show ?case
  proof (cases "r' \<in> set rs0")
    case True
    from Cons.IH [OF rs0 True] show ?thesis by auto
  next
    case False
    then have "r' = r(''sequence_aas'' \<mapsto> Str (translate_sequence s))"
      using Cons.prems(2) eq by simp
    with s show ?thesis by auto
  qed
qed

lemma strip_cell_same: "r c = Some (Str s) \<Longrightarrow> strip_cell c n r c = Some (Str (strip_ends n s))"
  by (simp add: strip_cell_def)

lemma row_after_translation:
  assumes "r \<in> set (rows (drop_illegal_character_sequences st
             (drop_empty_sequences
                (setitem ''region_types'' (\<lambda>r. Str (region_type_name (region_type params))) (junction_to_cdr3 (stop_codon_filter params df3) rt))
                a n) i))"
  shows "\<exists>r3 \<in> set (rows df3).
           (import_with_stop_codon params \<or> no_stop r3) \<and>
           r = (if rt = IMGT_CDR3 then strip_cell ''sequences'' 3 (strip_cell ''sequence_aas'' 1 r3) else r3)
                 (''region_types'' \<mapsto> Str (region_type_name (region_type params))) \<and>
           (a \<or> nonempty_cell (r ''sequence_aas'')) \<and>
           (n \<or> nonempty_cell (r ''sequences'')) \<and>
           (i \<or> legal_cell st (r (sequence_column st)))"
proof -
  let ?d4 = "stop_codon_filter params df3"
  let ?d6 = "setitem ''region_types'' (\<lambda>r. Str (region_type_name (region_type params))) (junction_to_cdr3 ?d4 rt)"
  let ?d7 = "drop_empty_sequences ?d6 a n"
  have i: "i \<or> legal_cell st (r (sequence_column st))" and r7: "r \<in> set (rows ?d7)"
    using assms by (auto simp: drop_illegal_character_sequences_def rows_getitem_mask split: if_splits)
  have e: "a \<or> nonempty_cell (r ''sequence_aas'')" "n \<or> nonempty_cell (r ''sequences'')"
    and r6: "r \<in> set (rows ?d6)"
    using r7 by (auto simp: drop_empty_sequences_def rows_getitem_mask)
  have "rows ?d6 =
      map (\<lambda>r4. (if rt = IMGT_CDR3 then strip_cell ''sequences'' 3 (strip_cell ''sequence_aas'' 1 r4) else r4)
                 (''region_types'' \<mapsto> Str (region_type_name (region_type params))))
        (rows ?d4)"
    by (simp add: rows_setitem rows_junction_to_cdr3 comp_def)
  with r6 obtain r4 where r4: "r4 \<in> set (rows ?d4)" and
    eq: "r = (if rt = IMGT_CDR3 then strip_cell ''sequences'' 3 (strip_cell ''sequence_aas'' 1 r4) else r4)
                 (''region_types'' \<mapsto> Str (region_type_name (region_type params)))"
    by auto
  have "r4 \<in> set (rows df3)" "import_with_stop_codon params \<or> no_stop r4"
    using r4 by (auto simp: rows_stop_codon_filter split: if_splits)
  with eq e i show ?thesis by blast
qed

lemma result_row:
  assumes "preprocess_dataframe st df params = Inr out" and "r \<in> set (rows out)"
  shows "\<exists>r2 s. r2 ''anchors_found'' = Some (Str ''1'') \<and>
           (\<not> import_out_of_frame params \<longrightarrow> r2 ''is_inframe'' = Some (Str ''1'')) \<and>
           r2 ''sequences'' = Some (Str s) \<and>
           (import_with_stop_codon params \<or> CHR ''*'' \<notin> set (translate_sequence s)) \<and>
           r = (if region_type params = IMGT_CDR3
                then strip_cell ''sequences'' 3
                       (strip_cell ''sequence_aas'' 1 (r2(''sequence_aas'' \<mapsto> Str (translate_sequence s))))
                else r2(''sequence_aas'' \<mapsto> Str (translate_sequence s)))
                 (''region_types'' \<mapsto> Str (region_type_name (region_type params))) \<and>
           (import_empty_nt_sequences params \<or> nonempty_cell (r ''sequences'')) \<and>
           (import_illegal_characters params \<or> legal_cell st (r (sequence_column st)))"
proof -
  from preprocess_dataframe_Inr [OF assms(1)] obtain df1 df2 df3 where
    d1: "anchor_filter (default_counts df) = Inr df1" and
    d2: "frame_filter params df1 = Inr df2" and
    d3: "translation df2 = Inr df3" and
    o: "out = drop_illegal_character_sequences st
             (drop_empty_sequences
                (setitem ''region_types'' (\<lambda>r. Str (region_type_name (region_type params)))
                   (junction_to_cdr3 (stop_codon_filter params df3) (region_type params)))
                True (import_empty_nt_sequences params))
             (import_illegal_characters params)"
    by blast
  from row_after_translation [OF assms(2) [unfolded o]] obtain r3 where
    r3: "r3 \<in> set (rows df3)" and stop: "import_with_stop_codon params \<or> no_stop r3" and
    eq: "r = (if region_type params = IMGT_CDR3
              then strip_cell ''sequences'' 3 (strip_cell ''sequence_aas'' 1 r3) else r3)
                 (''region_types'' \<mapsto> Str (region_type_name (region_type params)))" and
    n: "import_empty_nt_sequences params \<or> nonempty_cell (r ''sequences'')" and
    i: "import_illegal_characters params \<or> legal_cell st (r (sequence_column st))"
    by blast
  from translation_Inr [OF d3] have "apply_translate (rows df2) = Inr (rows df3)" by simp
  from row_of_apply_translate [OF this r3] obtain r2 s where
    r2: "r2 \<in> set (rows df2)" and s: "r2 ''sequences'' = Some (Str s)" and
    r3eq: "r3 = r2(''sequence_aas'' \<mapsto> Str (translate_sequence s))"
    by blast
  have f: "\<not> import_out_of_frame params \<longrightarrow> r2 ''is_inframe'' = Some (Str ''1'')" and r1: "r2 \<in> set (rows df1)"
    using frame_filter_Inr [OF d2] r2 by (auto split: if_splits)
  have a: "r2 ''anchors_found'' = Some (Str ''1'')"
    using anchor_filter_Inr [OF d1] r1 by auto
  have "import_with_stop_codon params \<or> CHR ''*'' \<notin> set (translate_sequence s)"
    using stop r3eq by (auto simp: no_stop_def)
  with a f s eq n i r3eq show ?thesis by blast
qed

lemma set_strip_ends: "set (strip_ends n s) \<subseteq> set s"
  by (auto simp: strip_ends_def dest: in_set_takeD in_set_dropD)

lemma result_row_sequence_aas:
  assumes "preprocess_dataframe st df params = Inr out" and "r \<in> set (rows out)"
  shows "\<exists>a. r ''sequence_aas'' = Some (Str a) \<and>
             (\<not> import_with_stop_codon params \<longrightarrow> CHR ''*'' \<notin> set a)"
proof -
  from result_row [OF assms] obtain r2 s where
    stop: "import_with_stop_codon params \<or> CHR ''*'' \<notin> set (translate_sequence s)" and
    eq: "r = (if region_type params = IMGT_CDR3
                then strip_cell ''sequences'' 3
                       (strip_cell ''sequence_aas'' 1 (r2(''sequence_aas'' \<mapsto> Str (translate_sequence s))))
                else r2(''sequence_aas'' \<mapsto> Str (translate_sequence s)))
                 (''region_types'' \<mapsto> Str (region_type_name (region_type params)))"
    by blast
  show ?thesis
  proof (cases "region_type params = IMGT_CDR3")
    case True
    have "strip_cell ''sequence_aas'' 1 (r2(''sequence_aas'' \<mapsto> Str (translate_sequence s))) ''sequence_aas''
            = Some (Str (strip_ends 1 (translate_sequence s)))"
      by (rule strip_cell_same) simp
    then have "r ''sequence_aas'' = Some (Str (strip_ends 1 (translate_sequence s)))"
      using eq True by (simp add: strip_cell_other)
    then show ?thesis using stop set_strip_ends [of 1 "translate_sequence s"] by auto
  next
    case False
    then have "r ''sequence_aas'' = Some (Str (translate_sequence s))"
      using eq by simp
    then show ?thesis using stop by auto
  qed
qed

lemma result_row_sequences:
  assumes "preprocess_dataframe st df params = Inr out" and "r \<in> set (rows out)"
  shows "\<exists>s. r ''sequences'' = Some (Str s) \<and> (\<not> import_empty_nt_sequences params \<longrightarrow> s \<noteq> [])"
proof -
  from result_row [OF assms] obtain r2 s where
    s: "r2 ''sequences'' = Some (Str s)" and
    n: "import_empty_nt_sequences params \<or> nonempty_cell (r ''sequences'')" and
    eq: "r = (if region_type params = IMGT_CDR3
                then strip_cell ''sequences'' 3
                       (strip_cell ''sequence_aas'' 1 (r2(''sequence_aas'' \<mapsto> Str (translate_sequence s))))
                else r2(''sequence_aas'' \<mapsto> Str (translate_sequence s)))
                 (''region_types'' \<mapsto> Str (region_type_name (region_type params)))"
    by blast
  have "\<exists>t. r ''sequences'' = Some (Str t)"
  proof (cases "region_type params = IMGT_CDR3")
    case True
    have "strip_cell ''sequence_aas'' 1 (r2(''sequence_aas'' \<mapsto> Str (translate_sequence s))) ''sequences''
            = Some (Str s)"
      using s by (simp add: strip_cell_other)
    then have "strip_cell ''sequences'' 3
                 (strip_cell ''sequence_aas'' 1 (r2(''sequence_aas'' \<mapsto> Str (translate_sequence s))))
                 ''sequences'' = Some (Str (strip_ends 3 s))"
      by (rule strip_cell_same)
    then show ?thesis
      using eq True by simp
  next
    case False
    then show ?thesis using eq s by simp
  qed
  then show ?thesis using n by auto
qed

lemmas pipeline_defs =
  preprocess_dataframe_def default_counts_def anchor_filter_def frame_filter_def translation_def
  stop_codon_filter_def junction_to_cdr3_def set_region_types_def drop_empty_sequences_def
  drop_illegal_character_sequences_def setitem_def getitem_mask_def getitem_bool_list_def
  column_values_def strip_cell_def strip_ends_def default_params_def

lemma translate_example: "translate_sequence ''ATGAAATAG'' = ''MK*''"
  by code_simp

lemma example_default_raises:
  "preprocess_dataframe st example_table default_params = Inl ValueError"
  by (simp add: pipeline_defs example_table_def translate_example no_stop_def)

lemma preprocess_dataframe_up_to_translation:
  "preprocess_dataframe st df params =
     (case up_to_translation params df of
        Inl e \<Rightarrow> Inl e
      | Inr df3 \<Rightarrow>
          (case set_region_types params
                  (junction_to_cdr3 (stop_codon_filter params df3) (region_type params)) of
             Inl e \<Rightarrow> Inl e
           | Inr df6 \<Rightarrow>
               Inr (drop_illegal_character_sequences st
                      (drop_empty_sequences df6 True (import_empty_nt_sequences params))
                      (import_illegal_characters params))))"
  by (simp add: preprocess_dataframe_def up_to_translation_def Let_def split: sum.splits)

lemma example_translated:
  "\<not> isl (up_to_translation default_params example_table)"
  "column_values ''sequence_aas'' (projr (up_to_translation default_params example_table))
     = [Some (Str ''MK*'')]"
  "length (rows (stop_codon_filter default_params
             (projr (up_to_translation default_params example_table)))) = 0"
  by code_simp+

lemma example_stop_trimmed:
  "column_values ''sequence_aas''
     (projr (preprocess_dataframe AMINO_ACID example_table (default_params\<lparr>import_with_stop_codon := True\<rparr>)))
     = [Some (Str ''K'')]"
  "column_values ''sequence_aas''
     (projr (preprocess_dataframe NUCLEOTIDE example_table (default_params\<lparr>import_with_stop_codon := True\<rparr>)))
     = [Some (Str ''K'')]"
  by code_simp+

text \<open>
  C4, as the code has it. With \<^verbatim>\<open>import_with_stop_codon\<close> false, every row of the result
  has an amino-acid sequence without \<open>*\<close>: line 148 keeps exactly the rows whose translated
  sequence has no \<open>*\<close> at any position. With \<^verbatim>\<open>import_with_stop_codon\<close> true, lines 146-148
  leave the table as it is. In the two-row example under the default parameters only the
  first row reaches the stop-codon stage, translated to \<^verbatim>\<open>MK*\<close>, and the stage drops it.
  With \<^verbatim>\<open>import_with_stop_codon\<close> true the first row survives; its amino-acid sequence is
  \<^verbatim>\<open>MK*\<close> under any region type other than \<^verbatim>\<open>IMGT_CDR3\<close>, and is trimmed to \<^verbatim>\<open>K\<close> under
  the default region type \<^verbatim>\<open>IMGT_CDR3\<close>.
\<close>

theorem stop_codon_rows_dropped:
  "((preprocess_dataframe st df params = Inr out \<and> \<not> import_with_stop_codon params) \<longrightarrow>
      (\<forall>r \<in> set (rows out). \<exists>a. r ''sequence_aas'' = Some (Str a) \<and> CHR ''*'' \<notin> set a)) \<and>
   (\<not> import_with_stop_codon params \<longrightarrow>
      rows (stop_codon_filter params df3) = filter no_stop (rows df3)) \<and>
   (import_with_stop_codon params \<longrightarrow> stop_codon_filter params df3 = df3) \<and>
   \<not> isl (up_to_translation default_params example_table) \<and>
   column_values ''sequence_aas'' (projr (up_to_translation default_params example_table))
     = [Some (Str ''MK*'')] \<and>
   rows (stop_codon_filter default_params (projr (up_to_translation default_params example_table)))
     = [] \<and>
   column_values ''sequence_aas''
     (projr (preprocess_dataframe st example_table
        (default_params\<lparr>import_with_stop_codon := True, region_type := OtherRegion n\<rparr>)))
     = [Some (Str ''MK*'')] \<and>
   column_values ''sequence_aas''
     (projr (preprocess_dataframe st example_table (default_params\<lparr>import_with_stop_codon := True\<rparr>)))
     = [Some (Str ''K'')]"
proof (intro conjI impI ballI)
  fix r
  assume "preprocess_dataframe st df params = Inr out \<and> \<not> import_with_stop_codon params"
    and "r \<in> set (rows out)"
  then show "\<exists>a. r ''sequence_aas'' = Some (Str a) \<and> CHR ''*'' \<notin> set a"
    using result_row_sequence_aas [of st df params out r] by blast
next
  assume "\<not> import_with_stop_codon params"
  then show "rows (stop_codon_filter params df3) = filter no_stop (rows df3)"
    by (simp add: rows_stop_codon_filter)
next
  assume "import_with_stop_codon params"
  then show "stop_codon_filter params df3 = df3"
    by (simp add: stop_codon_filter_def)
next
  show "\<not> isl (up_to_translation default_params example_table)"
    by (rule example_translated)
next
  show "column_values ''sequence_aas'' (projr (up_to_translation default_params example_table))
     = [Some (Str ''MK*'')]"
    by (rule example_translated)
next
  show "rows (stop_codon_filter default_params (projr (up_to_translation default_params example_table)))
     = []"
    using example_translated(3) by simp
next
  show "column_values ''sequence_aas''
     (projr (preprocess_dataframe st example_table
        (default_params\<lparr>import_with_stop_codon := True, region_type := OtherRegion n\<rparr>)))
     = [Some (Str ''MK*'')]"
    by (cases st) (simp_all add: pipeline_defs example_table_def translate_example)
next
  show "column_values ''sequence_aas''
     (projr (preprocess_dataframe st example_table (default_params\<lparr>import_with_stop_codon := True\<rparr>)))
     = [Some (Str ''K'')]"
    by (cases st) (simp_all only: example_stop_trimmed)
qed

theorem stop_codon_rows_dropped_witness:
  "\<not> isl (preprocess_dataframe AMINO_ACID stop_table default_params) \<and>
   \<not> import_with_stop_codon default_params \<and>
   column_values ''sequence_aas'' (projr (up_to_translation default_params stop_table))
     = [Some (Str ''CASW''), Some (Str ''C*W'')] \<and>
   column_values ''sequence_aas'' (projr (preprocess_dataframe AMINO_ACID stop_table default_params))
     = [Some (Str ''AS'')] \<and>
   list_all (\<lambda>r. \<exists>a. r ''sequence_aas'' = Some (Str a) \<and> CHR ''*'' \<notin> set a)
     (rows (projr (preprocess_dataframe AMINO_ACID stop_table default_params))) \<and>
   rows (stop_codon_filter default_params (projr (up_to_translation default_params stop_table)))
     = filter no_stop (rows (projr (up_to_translation default_params stop_table))) \<and>
   column_values ''sequence_aas''
     (stop_codon_filter default_params (projr (up_to_translation default_params stop_table)))
     = [Some (Str ''CASW'')] \<and>
   import_with_stop_codon (default_params\<lparr>import_with_stop_codon := True\<rparr>) \<and>
   stop_codon_filter (default_params\<lparr>import_with_stop_codon := True\<rparr>)
     (projr (up_to_translation default_params stop_table))
     = projr (up_to_translation default_params stop_table)"
proof -
  let ?res = "preprocess_dataframe AMINO_ACID stop_table default_params"
  let ?p = "default_params\<lparr>import_with_stop_codon := True\<rparr>"
  let ?t = "projr (up_to_translation default_params stop_table)"
  have ok: "\<not> isl ?res" by code_simp
  then obtain out where out: "?res = Inr out" by (cases ?res) simp_all
  have off: "\<not> import_with_stop_codon default_params" by (simp add: default_params_def)
  have on: "import_with_stop_codon ?p" by simp
  have t: "column_values ''sequence_aas'' ?t = [Some (Str ''CASW''), Some (Str ''C*W'')]"
    by code_simp
  have v: "column_values ''sequence_aas'' (projr ?res) = [Some (Str ''AS'')]"
    by code_simp
  have w: "column_values ''sequence_aas'' (stop_codon_filter default_params ?t) = [Some (Str ''CASW'')]"
    by code_simp
  note inst = stop_codon_rows_dropped [of AMINO_ACID stop_table default_params out ?t]
  have all: "list_all (\<lambda>r. \<exists>a. r ''sequence_aas'' = Some (Str a) \<and> CHR ''*'' \<notin> set a) (rows (projr ?res))"
    using inst out off by (simp add: list_all_iff)
  have f: "rows (stop_codon_filter default_params ?t) = filter no_stop (rows ?t)"
    using inst off by blast
  have g: "stop_codon_filter ?p ?t = ?t"
    using stop_codon_rows_dropped [of AMINO_ACID stop_table ?p out ?t] on by blast
  from ok off t v all f w on g show ?thesis by blast
qed

theorem stop_codon_example_counterexample:
  "\<not> isl (preprocess_dataframe AMINO_ACID example_table (default_params\<lparr>import_with_stop_codon := True\<rparr>)) \<and>
   column_values ''sequence_aas''
     (projr (preprocess_dataframe AMINO_ACID example_table (default_params\<lparr>import_with_stop_codon := True\<rparr>)))
     = [Some (Str ''K'')] \<and>
   column_values ''sequence_aas''
     (projr (preprocess_dataframe AMINO_ACID example_table (default_params\<lparr>import_with_stop_codon := True\<rparr>)))
     \<noteq> [Some (Str ''MK*'')]"
proof (intro conjI)
  show "\<not> isl (preprocess_dataframe AMINO_ACID example_table (default_params\<lparr>import_with_stop_codon := True\<rparr>))"
    by code_simp
  show "column_values ''sequence_aas''
     (projr (preprocess_dataframe AMINO_ACID example_table (default_params\<lparr>import_with_stop_codon := True\<rparr>)))
     = [Some (Str ''K'')]"
    by code_simp
  then show "column_values ''sequence_aas''
     (projr (preprocess_dataframe AMINO_ACID example_table (default_params\<lparr>import_with_stop_codon := True\<rparr>)))
     \<noteq> [Some (Str ''MK*'')]"
    by simp
qed

text \<open>
  C5, as the code has it. The call of line 153 passes \<^verbatim>\<open>True\<close> for
  \<^verbatim>\<open>import_empty_aa_sequences\<close>: the stage never looks at the amino-acid sequence, and a
  row whose derived amino-acid sequence is empty stays. It drops the rows with an empty
  nucleotide sequence when \<^verbatim>\<open>import_empty_nt_sequences\<close> is false, so that every row of the
  result then has a non-empty nucleotide sequence, and drops nothing when it is true.
\<close>

theorem empty_nt_rows_dropped:
  "((preprocess_dataframe st df params = Inr out \<and> \<not> import_empty_nt_sequences params) \<longrightarrow>
      (\<forall>r \<in> set (rows out). \<exists>s. r ''sequences'' = Some (Str s) \<and> s \<noteq> [])) \<and>
   drop_empty_sequences df7 True (import_empty_nt_sequences params) =
     getitem_mask (\<lambda>r. import_empty_nt_sequences params \<or> nonempty_cell (r ''sequences'')) df7 \<and>
   (import_empty_nt_sequences params \<longrightarrow>
      drop_empty_sequences df7 True (import_empty_nt_sequences params) = df7)"
proof (intro conjI impI ballI)
  fix r
  assume "preprocess_dataframe st df params = Inr out \<and> \<not> import_empty_nt_sequences params"
    and "r \<in> set (rows out)"
  then show "\<exists>s. r ''sequences'' = Some (Str s) \<and> s \<noteq> []"
    using result_row_sequences [of st df params out r] by blast
next
  show "drop_empty_sequences df7 True (import_empty_nt_sequences params) =
     getitem_mask (\<lambda>r. import_empty_nt_sequences params \<or> nonempty_cell (r ''sequences'')) df7"
    by (simp add: drop_empty_sequences_def)
next
  assume "import_empty_nt_sequences params"
  then show "drop_empty_sequences df7 True (import_empty_nt_sequences params) = df7"
    by (simp add: drop_empty_sequences_def getitem_mask_def)
qed

theorem empty_nt_rows_dropped_witness:
  "\<not> isl (preprocess_dataframe AMINO_ACID two_codon_table (default_params\<lparr>import_empty_nt_sequences := False\<rparr>)) \<and>
   \<not> import_empty_nt_sequences (default_params\<lparr>import_empty_nt_sequences := False\<rparr>) \<and>
   column_values ''sequences''
     (projr (preprocess_dataframe AMINO_ACID two_codon_table (default_params\<lparr>import_empty_nt_sequences := False\<rparr>)))
     = [Some (Str ''GCCAGC'')] \<and>
   list_all (\<lambda>r. \<exists>s. r ''sequences'' = Some (Str s) \<and> s \<noteq> [])
     (rows (projr (preprocess_dataframe AMINO_ACID two_codon_table (default_params\<lparr>import_empty_nt_sequences := False\<rparr>)))) \<and>
   import_empty_nt_sequences default_params \<and>
   drop_empty_sequences two_codon_table True (import_empty_nt_sequences default_params) = two_codon_table"
proof -
  let ?p = "default_params\<lparr>import_empty_nt_sequences := False\<rparr>"
  let ?res = "preprocess_dataframe AMINO_ACID two_codon_table ?p"
  have ok: "\<not> isl ?res" by code_simp
  then obtain out where out: "?res = Inr out" by (cases ?res) simp_all
  have off: "\<not> import_empty_nt_sequences ?p" by simp
  have on: "import_empty_nt_sequences default_params" by (simp add: default_params_def)
  have v: "column_values ''sequences'' (projr ?res) = [Some (Str ''GCCAGC'')]"
    by code_simp
  have all: "list_all (\<lambda>r. \<exists>s. r ''sequences'' = Some (Str s) \<and> s \<noteq> []) (rows (projr ?res))"
    using empty_nt_rows_dropped [of AMINO_ACID two_codon_table ?p out two_codon_table] out off
    by (simp add: list_all_iff)
  have keep: "drop_empty_sequences two_codon_table True (import_empty_nt_sequences default_params) = two_codon_table"
    using empty_nt_rows_dropped [of AMINO_ACID two_codon_table default_params out two_codon_table] on
    by blast
  from ok off v all on keep show ?thesis by blast
qed

theorem empty_aa_row_survives_counterexample:
  "\<not> isl (preprocess_dataframe AMINO_ACID short_table (default_params\<lparr>import_empty_nt_sequences := False\<rparr>)) \<and>
   column_values ''sequences''
     (projr (preprocess_dataframe AMINO_ACID short_table (default_params\<lparr>import_empty_nt_sequences := False\<rparr>)))
     = [Some (Str ''GC'')] \<and>
   column_values ''sequence_aas''
     (projr (preprocess_dataframe AMINO_ACID short_table (default_params\<lparr>import_empty_nt_sequences := False\<rparr>)))
     = [Some (Str [])] \<and>
   column_values ''sequence_aas'' (projr (preprocess_dataframe AMINO_ACID short_table default_params))
     = [Some (Str [])]"
proof (intro conjI)
  show "\<not> isl (preprocess_dataframe AMINO_ACID short_table (default_params\<lparr>import_empty_nt_sequences := False\<rparr>))"
    by code_simp
  show "column_values ''sequences''
     (projr (preprocess_dataframe AMINO_ACID short_table (default_params\<lparr>import_empty_nt_sequences := False\<rparr>)))
     = [Some (Str ''GC'')]"
    by code_simp
  show "column_values ''sequence_aas''
     (projr (preprocess_dataframe AMINO_ACID short_table (default_params\<lparr>import_empty_nt_sequences := False\<rparr>)))
     = [Some (Str [])]"
    by code_simp
  show "column_values ''sequence_aas'' (projr (preprocess_dataframe AMINO_ACID short_table default_params))
     = [Some (Str [])]"
    by code_simp
qed

subsection \<open>Running the pipeline on its own result\<close>

lemma getitem_mask_all: "\<forall>r \<in> set (rows df). p r \<Longrightarrow> getitem_mask p df = df"
  by (simp add: getitem_mask_def)

lemma setitem_same:
  "c \<in> set (columns df) \<Longrightarrow> \<forall>r \<in> set (rows df). r c = Some (v r) \<Longrightarrow> setitem c v df = df"
  by (simp add: setitem_def map_upd_triv map_idI)

lemma apply_translate_fixed:
  "\<forall>r \<in> set rs. \<exists>s. r ''sequences'' = Some (Str s) \<and>
                      r ''sequence_aas'' = Some (Str (translate_sequence s)) \<Longrightarrow>
   apply_translate rs = Inr rs"
proof (induction rs)
  case Nil
  then show ?case by simp
next
  case (Cons r rs)
  then obtain s where s: "r ''sequences'' = Some (Str s)"
    and a: "r ''sequence_aas'' = Some (Str (translate_sequence s))"
    by auto
  have "apply_translate rs = Inr rs" using Cons by simp
  then show ?case using s a by (simp add: map_upd_triv)
qed

lemma stop_codon_filter_all:
  assumes "import_with_stop_codon params \<or> (rows df \<noteq> [] \<and> (\<forall>r \<in> set (rows df). no_stop r))"
  shows "stop_codon_filter params df = df"
proof (cases "import_with_stop_codon params")
  case True
  then show ?thesis by (simp add: stop_codon_filter_def)
next
  case False
  then have ne: "rows df \<noteq> []" and all: "\<forall>r \<in> set (rows df). no_stop r"
    using assms by auto
  have "map snd (filter fst (zip (map no_stop (rows df)) (rows df))) = rows df"
    using all by (simp only: mask_zip_filter filter_True)
  then show ?thesis
    using False ne by (simp add: stop_codon_filter_def getitem_bool_list_def)
qed

lemma columns_after_translation:
  assumes "import_with_stop_codon params \<or> rows df3 \<noteq> []"
  shows "set (columns (drop_illegal_character_sequences st
             (drop_empty_sequences
                (setitem ''region_types'' (\<lambda>r. Str (region_type_name (region_type params))) (junction_to_cdr3 (stop_codon_filter params df3) rt))
                a n) i))
         = insert ''region_types'' (set (columns df3))"
  using columns_stop_codon_filter [OF assms]
  by (simp add: drop_illegal_character_sequences_def drop_empty_sequences_def columns_getitem_mask
      set_columns_setitem junction_to_cdr3_def)

lemma result_columns:
  assumes "preprocess_dataframe st df params = Inr out"
    and "import_with_stop_codon params \<or> rows out \<noteq> []"
  shows "''counts'' \<in> set (columns out) \<and> ''anchors_found'' \<in> set (columns out) \<and>
         ''sequences'' \<in> set (columns out) \<and> ''sequence_aas'' \<in> set (columns out) \<and>
         ''region_types'' \<in> set (columns out) \<and>
         (\<not> import_out_of_frame params \<longrightarrow> ''is_inframe'' \<in> set (columns out))"
proof -
  from preprocess_dataframe_Inr [OF assms(1)] obtain df1 df2 df3 where
    d1: "anchor_filter (default_counts df) = Inr df1" and
    d2: "frame_filter params df1 = Inr df2" and
    d3: "translation df2 = Inr df3" and
    o: "out = drop_illegal_character_sequences st
             (drop_empty_sequences
                (setitem ''region_types'' (\<lambda>r. Str (region_type_name (region_type params)))
                   (junction_to_cdr3 (stop_codon_filter params df3) (region_type params)))
                True (import_empty_nt_sequences params))
             (import_illegal_characters params)"
    by blast
  have "import_with_stop_codon params \<or> rows df3 \<noteq> []"
  proof (cases "rows out")
    case Nil
    then show ?thesis using assms(2) by simp
  next
    case (Cons r rs)
    then have "r \<in> set (rows out)" by simp
    from row_after_translation [OF this [unfolded o]] show ?thesis by auto
  qed
  from columns_after_translation [OF this]
  have k: "set (columns out) = insert ''region_types'' (set (columns df3))"
    unfolding o .
  have k1: "''anchors_found'' \<in> set (columns df1)" "''counts'' \<in> set (columns df1)"
    using anchor_filter_Inr [OF d1] by (simp_all add: columns_default_counts)
  have k2: "columns df2 = columns df1"
    "import_out_of_frame params \<or> ''is_inframe'' \<in> set (columns df1)"
    using frame_filter_Inr [OF d2] by simp_all
  have k3: "''sequences'' \<in> set (columns df2)"
    "set (columns df3) = insert ''sequence_aas'' (set (columns df2))"
    using translation_Inr [OF d3] by simp_all
  from k k1 k2 k3 show ?thesis by auto
qed

lemma result_row_stable:
  assumes "preprocess_dataframe st df params = Inr out" and "r \<in> set (rows out)"
    and "region_type params \<noteq> IMGT_CDR3"
  shows "r ''anchors_found'' = Some (Str ''1'') \<and>
         (\<not> import_out_of_frame params \<longrightarrow> r ''is_inframe'' = Some (Str ''1'')) \<and>
         (\<exists>s. r ''sequences'' = Some (Str s) \<and>
              r ''sequence_aas'' = Some (Str (translate_sequence s))) \<and>
         (import_with_stop_codon params \<or> no_stop r) \<and>
         r ''region_types'' = Some (Str (region_type_name (region_type params))) \<and>
         (import_empty_nt_sequences params \<or> nonempty_cell (r ''sequences'')) \<and>
         (import_illegal_characters params \<or> legal_cell st (r (sequence_column st)))"
proof -
  from result_row [OF assms(1,2)] obtain r2 s where
    a: "r2 ''anchors_found'' = Some (Str ''1'')" and
    f: "\<not> import_out_of_frame params \<longrightarrow> r2 ''is_inframe'' = Some (Str ''1'')" and
    s: "r2 ''sequences'' = Some (Str s)" and
    stop: "import_with_stop_codon params \<or> CHR ''*'' \<notin> set (translate_sequence s)" and
    eq: "r = (if region_type params = IMGT_CDR3
                then strip_cell ''sequences'' 3
                       (strip_cell ''sequence_aas'' 1 (r2(''sequence_aas'' \<mapsto> Str (translate_sequence s))))
                else r2(''sequence_aas'' \<mapsto> Str (translate_sequence s)))
                 (''region_types'' \<mapsto> Str (region_type_name (region_type params)))" and
    n: "import_empty_nt_sequences params \<or> nonempty_cell (r ''sequences'')" and
    i: "import_illegal_characters params \<or> legal_cell st (r (sequence_column st))"
    by blast
  have eq': "r = r2(''sequence_aas'' \<mapsto> Str (translate_sequence s),
                    ''region_types'' \<mapsto> Str (region_type_name (region_type params)))"
    using eq assms(3) by simp
  have "r ''anchors_found'' = Some (Str ''1'')" using a eq' by simp
  moreover have "\<not> import_out_of_frame params \<longrightarrow> r ''is_inframe'' = Some (Str ''1'')"
    using f eq' by simp
  moreover have "r ''sequences'' = Some (Str s)" using s eq' by simp
  moreover have "r ''sequence_aas'' = Some (Str (translate_sequence s))" using eq' by simp
  moreover have "r ''region_types'' = Some (Str (region_type_name (region_type params)))"
    using eq' by simp
  ultimately show ?thesis using stop n i by (auto simp: no_stop_def)
qed

lemma rerun_stable:
  assumes cols: "''counts'' \<in> set (columns out)" "''anchors_found'' \<in> set (columns out)"
      "''sequences'' \<in> set (columns out)" "''sequence_aas'' \<in> set (columns out)"
      "''region_types'' \<in> set (columns out)"
      "\<not> import_out_of_frame params \<longrightarrow> ''is_inframe'' \<in> set (columns out)"
    and rws: "\<forall>r \<in> set (rows out).
         r ''anchors_found'' = Some (Str ''1'') \<and>
         (\<not> import_out_of_frame params \<longrightarrow> r ''is_inframe'' = Some (Str ''1'')) \<and>
         (\<exists>s. r ''sequences'' = Some (Str s) \<and>
              r ''sequence_aas'' = Some (Str (translate_sequence s))) \<and>
         (import_with_stop_codon params \<or> no_stop r) \<and>
         r ''region_types'' = Some (Str (region_type_name (region_type params))) \<and>
         (import_empty_nt_sequences params \<or> nonempty_cell (r ''sequences'')) \<and>
         (import_illegal_characters params \<or> legal_cell st (r (sequence_column st)))"
    and rt: "region_type params \<noteq> IMGT_CDR3"
    and ne: "import_with_stop_codon params \<or> rows out \<noteq> []"
  shows "preprocess_dataframe st out params = Inr out"
proof -
  have anch: "\<forall>r \<in> set (rows out). r ''anchors_found'' = Some (Str ''1'')"
    and infr: "\<not> import_out_of_frame params \<longrightarrow>
               (\<forall>r \<in> set (rows out). r ''is_inframe'' = Some (Str ''1''))"
    and seqs: "\<forall>r \<in> set (rows out). \<exists>s. r ''sequences'' = Some (Str s) \<and>
               r ''sequence_aas'' = Some (Str (translate_sequence s))"
    and stop: "import_with_stop_codon params \<or> (\<forall>r \<in> set (rows out). no_stop r)"
    and regn: "\<forall>r \<in> set (rows out).
               r ''region_types'' = Some (Str (region_type_name (region_type params)))"
    and empt: "\<forall>r \<in> set (rows out).
               import_empty_nt_sequences params \<or> nonempty_cell (r ''sequences'')"
    and legl: "import_illegal_characters params \<or>
               (\<forall>r \<in> set (rows out). legal_cell st (r (sequence_column st)))"
    using rws by blast+
  have s0: "default_counts out = out"
    using cols(1) by (simp add: default_counts_def)
  have s1: "anchor_filter out = Inr out"
    using cols(2) anch by (simp add: anchor_filter_def getitem_mask_all)
  have s2: "frame_filter params out = Inr out"
    using cols(6) infr by (simp add: frame_filter_def getitem_mask_all)
  have "apply_translate (rows out) = Inr (rows out)"
    using seqs by (rule apply_translate_fixed)
  then have s3: "translation out = Inr out"
    using cols(3,4) by (simp add: translation_def)
  have s4: "stop_codon_filter params out = out"
    using ne stop by (intro stop_codon_filter_all) blast
  have s5: "junction_to_cdr3 out (region_type params) = out"
    using rt by (simp add: junction_to_cdr3_def)
  have "setitem ''region_types'' (\<lambda>r. Str (region_type_name (region_type params))) out = out"
    using cols(5) regn by (intro setitem_same)
  then have s6: "set_region_types params out = Inr out"
    using cols(5) by (simp add: set_region_types_def)
  have s7: "drop_empty_sequences out True (import_empty_nt_sequences params) = out"
    unfolding drop_empty_sequences_def using empt by (intro getitem_mask_all) simp
  have s8: "drop_illegal_character_sequences st out (import_illegal_characters params) = out"
    using legl by (auto simp: drop_illegal_character_sequences_def intro!: getitem_mask_all)
  show ?thesis
    by (simp add: preprocess_dataframe_def s0 s1 s2 s3 s4 s5 s6 s7 s8)
qed

text \<open>
  C7, as the code has it. Under a region type other than \<^verbatim>\<open>IMGT_CDR3\<close>, where
  \<^verbatim>\<open>junction_to_cdr3\<close> leaves the sequences as they are, running \<^verbatim>\<open>preprocess_dataframe\<close>
  again on a result that has at least one row (or with \<^verbatim>\<open>import_with_stop_codon\<close> true)
  returns that result unchanged. Under \<^verbatim>\<open>IMGT_CDR3\<close> every run strips the sequences
  once more.
\<close>

theorem preprocess_dataframe_idempotent:
  assumes "preprocess_dataframe st df params = Inr out"
    and "region_type params \<noteq> IMGT_CDR3"
    and "import_with_stop_codon params \<or> rows out \<noteq> []"
  shows "preprocess_dataframe st out params = Inr out"
proof (rule rerun_stable)
  note cols = result_columns [OF assms(1,3)]
  show "''counts'' \<in> set (columns out)" using cols by blast
  show "''anchors_found'' \<in> set (columns out)" using cols by blast
  show "''sequences'' \<in> set (columns out)" using cols by blast
  show "''sequence_aas'' \<in> set (columns out)" using cols by blast
  show "''region_types'' \<in> set (columns out)" using cols by blast
  show "\<not> import_out_of_frame params \<longrightarrow> ''is_inframe'' \<in> set (columns out)"
    using cols by blast
  show "\<forall>r \<in> set (rows out).
         r ''anchors_found'' = Some (Str ''1'') \<and>
         (\<not> import_out_of_frame params \<longrightarrow> r ''is_inframe'' = Some (Str ''1'')) \<and>
         (\<exists>s. r ''sequences'' = Some (Str s) \<and>
              r ''sequence_aas'' = Some (Str (translate_sequence s))) \<and>
         (import_with_stop_codon params \<or> no_stop r) \<and>
         r ''region_types'' = Some (Str (region_type_name (region_type params))) \<and>
         (import_empty_nt_sequences params \<or> nonempty_cell (r ''sequences'')) \<and>
         (import_illegal_characters params \<or> legal_cell st (r (sequence_column st)))"
    using result_row_stable [OF assms(1) _ assms(2)] by blast
  show "region_type params \<noteq> IMGT_CDR3" by (rule assms(2))
  show "import_with_stop_codon params \<or> rows out \<noteq> []" by (rule assms(3))
qed

theorem preprocess_dataframe_idempotent_witness:
  "\<not> isl (preprocess_dataframe AMINO_ACID counted_table (default_params\<lparr>region_type := OtherRegion ''IMGT_JUNCTION''\<rparr>)) \<and>
   region_type (default_params\<lparr>region_type := OtherRegion ''IMGT_JUNCTION''\<rparr>) \<noteq> IMGT_CDR3 \<and>
   column_values ''sequence_aas''
     (projr (preprocess_dataframe AMINO_ACID counted_table (default_params\<lparr>region_type := OtherRegion ''IMGT_JUNCTION''\<rparr>)))
     = [Some (Str ''CASW'')] \<and>
   rows (projr (preprocess_dataframe AMINO_ACID counted_table (default_params\<lparr>region_type := OtherRegion ''IMGT_JUNCTION''\<rparr>))) \<noteq> [] \<and>
   preprocess_dataframe AMINO_ACID
     (projr (preprocess_dataframe AMINO_ACID counted_table (default_params\<lparr>region_type := OtherRegion ''IMGT_JUNCTION''\<rparr>)))
     (default_params\<lparr>region_type := OtherRegion ''IMGT_JUNCTION''\<rparr>)
   = Inr (projr (preprocess_dataframe AMINO_ACID counted_table (default_params\<lparr>region_type := OtherRegion ''IMGT_JUNCTION''\<rparr>)))"
proof -
  let ?p = "default_params\<lparr>region_type := OtherRegion ''IMGT_JUNCTION''\<rparr>"
  let ?res = "preprocess_dataframe AMINO_ACID counted_table ?p"
  have ok: "\<not> isl ?res" by code_simp
  then obtain out where out: "?res = Inr out" by (cases ?res) simp_all
  have rt: "region_type ?p \<noteq> IMGT_CDR3" by simp
  have v: "column_values ''sequence_aas'' (projr ?res) = [Some (Str ''CASW'')]" by code_simp
  then have ne: "rows out \<noteq> []" using out by (auto simp: column_values_def)
  then have ne': "import_with_stop_codon ?p \<or> rows out \<noteq> []" by simp
  from preprocess_dataframe_idempotent [OF out rt ne']
  have "preprocess_dataframe AMINO_ACID out ?p = Inr out" .
  with ok rt v ne out show ?thesis by simp
qed

theorem preprocess_dataframe_twice_counterexample:
  "\<not> isl (preprocess_dataframe AMINO_ACID counted_table default_params) \<and>
   column_values ''sequences'' (projr (preprocess_dataframe AMINO_ACID counted_table default_params))
     = [Some (Str ''GCCAGC'')] \<and>
   column_values ''sequences''
     (projr (preprocess_dataframe AMINO_ACID
        (projr (preprocess_dataframe AMINO_ACID counted_table default_params)) default_params))
     = [Some (Str [])] \<and>
   preprocess_dataframe AMINO_ACID
     (projr (preprocess_dataframe AMINO_ACID counted_table default_params)) default_params
   \<noteq> Inr (projr (preprocess_dataframe AMINO_ACID counted_table default_params))"
proof -
  let ?one = "preprocess_dataframe AMINO_ACID counted_table default_params"
  let ?two = "preprocess_dataframe AMINO_ACID (projr ?one) default_params"
  have ok: "\<not> isl ?one" by code_simp
  have v1: "column_values ''sequences'' (projr ?one) = [Some (Str ''GCCAGC'')]" by code_simp
  have v2: "column_values ''sequences'' (projr ?two) = [Some (Str [])]" by code_simp
  have "?two \<noteq> Inr (projr ?one)"
  proof
    assume "?two = Inr (projr ?one)"
    then have "column_values ''sequences'' (projr ?two) = column_values ''sequences'' (projr ?one)"
      by simp
    with v1 v2 show False by simp
  qed
  with ok v1 v2 show ?thesis by blast
qed

end
